theory Spec2Isabelle
  imports Main "HOL-Library.Sublist"
begin

section \<open>Python values used by the add-on\<close>

subsection \<open>Exceptions\<close>

text \<open>
  An exception is its class and the text that \<open>str(e)\<close> gives. The classes are the ones
  the add-on's handlers tell apart: \<open>except Exception\<close>,
  \<open>except requests.exceptions.RequestException\<close> and \<open>except json.JSONDecodeError\<close>.
  \<open>InvalidJSON\<close> is the JSONDecodeError of recent \<open>requests\<close> releases, a subclass of both
  RequestException and json.JSONDecodeError. \<open>NonException\<close> stands for the classes that
  derive from BaseException only (SystemExit, KeyboardInterrupt, GeneratorExit): no
  \<open>except Exception\<close> catches them.
\<close>

datatype exn_class =
    KeyError | IndexError | TypeError | AttributeError | RuntimeError
  | RequestException | JSONDecodeError | InvalidJSON | OtherException | NonException

datatype exn = Exn exn_class string

fun str_exn :: "exn \<Rightarrow> string" where
  "str_exn (Exn c m) = m"

fun isinstance_Exception :: "exn \<Rightarrow> bool" where
  "isinstance_Exception (Exn c m) = (c \<noteq> NonException)"

fun isinstance_RequestException :: "exn \<Rightarrow> bool" where
  "isinstance_RequestException (Exn c m) = (c = RequestException \<or> c = InvalidJSON)"

fun isinstance_JSONDecodeError :: "exn \<Rightarrow> bool" where
  "isinstance_JSONDecodeError (Exn c m) = (c = JSONDecodeError \<or> c = InvalidJSON)"

text \<open>Sequencing of computations that may raise: \<open>Inl\<close> is the raised exception.\<close>

definition bind_exn :: "exn + 'a \<Rightarrow> ('a \<Rightarrow> exn + 'b) \<Rightarrow> exn + 'b" where
  "bind_exn m f = (case m of Inl e \<Rightarrow> Inl e | Inr x \<Rightarrow> f x)"

subsection \<open>Strings\<close>

text \<open>
  A Python \<open>str\<close> is a \<open>string\<close>; the characters are the code points below 256.
  \<open>isspace\<close> lists the ones among them that \<open>str.strip()\<close> removes.
\<close>

definition isspace :: "char \<Rightarrow> bool" where
  "isspace c = (let n = (of_char c :: nat) in
     (9 \<le> n \<and> n \<le> 13) \<or> (28 \<le> n \<and> n \<le> 32) \<or> n = 133 \<or> n = 160)"

definition strip :: "string \<Rightarrow> string" where
  "strip s = rev (dropWhile isspace (rev (dropWhile isspace s)))"

definition startswith :: "string \<Rightarrow> string \<Rightarrow> bool" where
  "startswith s p = prefix p s"

text \<open>\<open>s.find(sep)\<close>: the index of the leftmost occurrence, \<open>None\<close> for Python's -1.\<close>

fun py_find :: "string \<Rightarrow> string \<Rightarrow> nat option" where
  "py_find [] sep = (if sep = [] then Some 0 else None)"
| "py_find (c # cs) sep =
     (if prefix sep (c # cs) then Some 0 else map_option Suc (py_find cs sep))"

text \<open>
  \<open>s.split(sep)\<close> cuts at the leftmost occurrence and goes on behind it. Python raises
  ValueError for an empty separator; the add-on passes the two fence literals only, and
  the model leaves the string uncut there.
\<close>

function py_split :: "string \<Rightarrow> string \<Rightarrow> string list" where
  "py_split s sep =
     (if sep = [] then [s]
      else case py_find s sep of
             None \<Rightarrow> [s]
           | Some i \<Rightarrow> take i s # py_split (drop (i + length sep) s) sep)"
  by pat_completeness auto
termination
proof (relation "measure (\<lambda>(s, sep). length s)")
  show "wf (measure (\<lambda>(s :: string, sep :: string). length s))" by simp
next
  fix s sep :: string and i
  assume ne: "sep \<noteq> []" and found: "py_find s sep = Some i"
  have "s \<noteq> []" using ne found by (cases s) auto
  then show "((drop (i + length sep) s, sep), (s, sep)) \<in> measure (\<lambda>(s, sep). length s)"
    using ne by (cases sep) auto
qed

declare py_split.simps [simp del]

text \<open>\<open>xs[i]\<close> on a list of strings, for an index that is not negative.\<close>

definition index_py :: "string list \<Rightarrow> nat \<Rightarrow> exn + string" where
  "index_py xs i =
     (if i < length xs then Inr (xs ! i) else Inl (Exn IndexError ''list index out of range''))"

subsection \<open>Removing the markdown fence\<close>

text \<open>
  The clean-up that \<open>call_gemini_api\<close>, \<open>call_anthropic_api\<close>, \<open>call_openai_api\<close> and
  \<open>call_groq_api\<close> each apply to the text of the reply, up to \<open>cleaned_content\<close>.
\<close>

definition cleaned_content :: "string \<Rightarrow> exn + string" where
  "cleaned_content content =
     bind_exn
       (if startswith content ''```python'' then
          bind_exn (index_py (py_split content ''```python'') 1)
            (\<lambda>inner. index_py (py_split inner ''```'') 0)
        else if startswith content ''```'' then
          bind_exn (index_py (py_split content ''```'') 1)
            (\<lambda>inner. index_py (py_split inner ''```'') 0)
        else Inr content)
       (\<lambda>content. Inr (strip content))"

text \<open>
  The text before the leftmost occurrence of a marker, all of the text when the marker
  does not occur. This is the reading of "up to the closing fence" that the statements
  below use.
\<close>

definition before :: "string \<Rightarrow> string \<Rightarrow> string" where
  "before s sep = (case py_find s sep of None \<Rightarrow> s | Some i \<Rightarrow> take i s)"


subsection \<open>Decoded JSON and the Python operations on it\<close>

text \<open>
  What \<open>response.json()\<close> returns: \<open>None\<close>, a bool, an int, a float (written as a
  mantissa and a power of ten), a str, a list or a dict. A dict lists each key once, in
  order. \<open>JNull\<close> is also the \<open>None\<close> that the provider calls return on failure.
\<close>

datatype json =
    JNull | JBool bool | JInt int | JDec int int | JStr string
  | JArr "json list" | JObj "(string \<times> json) list"

fun type_name :: "json \<Rightarrow> string" where
  "type_name JNull = ''NoneType''"
| "type_name (JBool b) = ''bool''"
| "type_name (JInt n) = ''int''"
| "type_name (JDec m e) = ''float''"
| "type_name (JStr s) = ''str''"
| "type_name (JArr xs) = ''list''"
| "type_name (JObj kvs) = ''dict''"

definition quoted :: "string \<Rightarrow> string" where
  "quoted s = [CHR 0x27] @ s @ [CHR 0x27]"

definition no_attribute :: "json \<Rightarrow> string \<Rightarrow> exn" where
  "no_attribute v a =
     Exn AttributeError (quoted (type_name v) @ '' object has no attribute '' @ quoted a)"

text \<open>\<open>v.keys()\<close>, whose value only a debug print uses: it raises on anything but a dict.\<close>

fun keys :: "json \<Rightarrow> exn + string list" where
  "keys (JObj kvs) = Inr (map fst kvs)"
| "keys v = Inl (no_attribute v ''keys'')"

text \<open>\<open>k in v\<close> for a str \<open>k\<close>.\<close>

fun contains :: "string \<Rightarrow> json \<Rightarrow> exn + bool" where
  "contains k (JObj kvs) = Inr (map_of kvs k \<noteq> None)"
| "contains k (JArr xs) = Inr (JStr k \<in> set xs)"
| "contains k (JStr s) = Inr (sublist k s)"
| "contains k v =
     Inl (Exn TypeError (''argument of type '' @ quoted (type_name v) @ '' is not iterable''))"

text \<open>\<open>v[k]\<close> for a str \<open>k\<close>.\<close>

fun getitem :: "json \<Rightarrow> string \<Rightarrow> exn + json" where
  "getitem (JObj kvs) k =
     (case map_of kvs k of None \<Rightarrow> Inl (Exn KeyError (quoted k)) | Some v \<Rightarrow> Inr v)"
| "getitem (JArr xs) k =
     Inl (Exn TypeError ''list indices must be integers or slices, not str'')"
| "getitem (JStr s) k = Inl (Exn TypeError ''string indices must be integers'')"
| "getitem v k =
     Inl (Exn TypeError (quoted (type_name v) @ '' object is not subscriptable''))"

text \<open>\<open>v[0]\<close>. No key of a decoded JSON object is the int 0.\<close>

fun getitem0 :: "json \<Rightarrow> exn + json" where
  "getitem0 (JArr xs) =
     (case xs of [] \<Rightarrow> Inl (Exn IndexError ''list index out of range'') | x # _ \<Rightarrow> Inr x)"
| "getitem0 (JStr s) =
     (case s of [] \<Rightarrow> Inl (Exn IndexError ''string index out of range'')
      | c # _ \<Rightarrow> Inr (JStr [c]))"
| "getitem0 (JObj kvs) = Inl (Exn KeyError ''0'')"
| "getitem0 v =
     Inl (Exn TypeError (quoted (type_name v) @ '' object is not subscriptable''))"

text \<open>\<open>len(v)\<close>.\<close>

fun len :: "json \<Rightarrow> exn + nat" where
  "len (JArr xs) = Inr (length xs)"
| "len (JStr s) = Inr (length s)"
| "len (JObj kvs) = Inr (length kvs)"
| "len v =
     Inl (Exn TypeError (''object of type '' @ quoted (type_name v) @ '' has no len()''))"

text \<open>\<open>v[:n]\<close>, whose value only a debug print uses. A dict takes no slice as a key.\<close>

fun slice_to :: "json \<Rightarrow> nat \<Rightarrow> exn + json" where
  "slice_to (JStr s) n = Inr (JStr (take n s))"
| "slice_to (JArr xs) n = Inr (JArr (take n xs))"
| "slice_to (JObj kvs) n = Inl (Exn TypeError (''unhashable type: '' @ quoted ''slice''))"
| "slice_to v n =
     Inl (Exn TypeError (quoted (type_name v) @ '' object is not subscriptable''))"

text \<open>\<open>v.get(k, d)\<close> of a dict.\<close>

fun get :: "json \<Rightarrow> string \<Rightarrow> json \<Rightarrow> exn + json" where
  "get (JObj kvs) k d = Inr (case map_of kvs k of None \<Rightarrow> d | Some v \<Rightarrow> v)"
| "get v k d = Inl (no_attribute v ''get'')"

text \<open>The receiver of a str method (\<open>startswith\<close>, \<open>strip\<close>): a str, or AttributeError.\<close>

fun str_method :: "json \<Rightarrow> string \<Rightarrow> exn + string" where
  "str_method (JStr s) a = Inr s"
| "str_method v a = Inl (no_attribute v a)"

text \<open>Truth value of an object in a condition.\<close>

fun truthy :: "json \<Rightarrow> bool" where
  "truthy JNull = False"
| "truthy (JBool b) = b"
| "truthy (JInt n) = (n \<noteq> 0)"
| "truthy (JDec m e) = (m \<noteq> 0)"
| "truthy (JStr s) = (s \<noteq> [])"
| "truthy (JArr xs) = (xs \<noteq> [])"
| "truthy (JObj kvs) = (kvs \<noteq> [])"

text \<open>Decimal digits of an int, as an f-string prints it.\<close>

fun str_nat :: "nat \<Rightarrow> string" where
  "str_nat n =
     (if n < 10 then [char_of (48 + n)] else str_nat (n div 10) @ [char_of (48 + n mod 10)])"

declare str_nat.simps [simp del]

definition str_int :: "int \<Rightarrow> string" where
  "str_int i = (if i < 0 then ''-'' @ str_nat (nat (- i)) else str_nat (nat i))"

section \<open>The add-on's data and its surroundings\<close>

subsection \<open>The settings: \<open>AIGenProperties\<close>\<close>

datatype provider = GEMINI | GROQ | OPENAI | ANTHROPIC | CUSTOM

record props =
  prompt :: string
  api_provider :: provider
  groq_model :: string
  openai_model :: string
  anthropic_model :: string
  api_url :: string
  api_key :: string
  auto_clear :: bool

subsection \<open>HTTP\<close>

text \<open>The arguments of one \<open>requests.post(url, json=data, headers=headers, timeout=t)\<close>.\<close>

record http_request =
  url :: string
  data :: json
  headers :: "(string \<times> string) list"
  timeout :: nat

text \<open>
  What the add-on reads of a response: \<open>status_code\<close>, \<open>text\<close> and the outcome of
  \<open>json()\<close>, which raises when the body is no JSON document.
\<close>

record response =
  status_code :: int
  body_text :: string
  body_json :: "exn + json"

subsection \<open>The world around one operator call\<close>

datatype level = INFO | WARNING | ERROR

text \<open>
  The messages shown through \<open>self.report\<close>, the HTTP requests sent, both in order, and
  the host's scene. Console output (\<open>print\<close>, \<open>traceback.print_exc\<close>) is left out; what
  the printed expressions can raise is kept.
\<close>

record 's world =
  reports :: "(level \<times> string) list"
  http_log :: "http_request list"
  scene :: 's

definition report :: "level \<Rightarrow> string \<Rightarrow> 's world \<Rightarrow> 's world" where
  "report l m w = w\<lparr>reports := reports w @ [(l, m)]\<rparr>"

text \<open>
  What the add-on calls and does not define: the network, Python's \<open>repr\<close> of a value
  that is not a str, and the host application. A host call takes the scene and returns
  the scene it leaves behind together with its result or the exception it raised.
  \<open>'s\<close> is the host's scene, \<open>'c\<close> a collection of it.
\<close>

record ('s, 'c) env =
  post :: "http_request \<Rightarrow> exn + response"
  repr :: "json \<Rightarrow> string"
  select_all :: "'s \<Rightarrow> (exn + unit) \<times> 's"
  delete :: "'s \<Rightarrow> (exn + unit) \<times> 's"
  collections_new :: "string \<Rightarrow> 's \<Rightarrow> (exn + 'c) \<times> 's"
  children_link :: "'c \<Rightarrow> 's \<Rightarrow> (exn + unit) \<times> 's"
  exec :: "string \<Rightarrow> 'c \<Rightarrow> 's \<Rightarrow> (exn + unit) \<times> 's"
  view_layer_update :: "'s \<Rightarrow> (exn + unit) \<times> 's"

text \<open>A value inside an f-string: a str as it is, anything else through \<open>repr\<close>.\<close>

definition format :: "('s, 'c) env \<Rightarrow> json \<Rightarrow> string" where
  "format env v = (case v of JStr s \<Rightarrow> s | _ \<Rightarrow> repr env v)"

text \<open>Sequencing of host calls: the first exception ends the sequence.\<close>

definition bind_host ::
  "('s \<Rightarrow> (exn + 'a) \<times> 's) \<Rightarrow> ('a \<Rightarrow> 's \<Rightarrow> (exn + 'b) \<times> 's) \<Rightarrow> 's \<Rightarrow> (exn + 'b) \<times> 's"
where
  "bind_host m f s = (case m s of (Inl e, s') \<Rightarrow> (Inl e, s') | (Inr x, s') \<Rightarrow> f x s')"

datatype status = FINISHED | CANCELLED

section \<open>The provider calls of \<open>AIGEN_OT_generate\<close>\<close>

subsection \<open>The requests\<close>

definition system_prompt :: string where
  "system_prompt = concat (map (\<lambda>line. line @ ''\<newline>'')
     [''You are a Blender Python script generator. Generate clean, working Python code that uses the Blender API (bpy) to create 3D models.'',
      '''',
      ''Rules:'',
      ''1. Only return Python code, no explanations or markdown'',
      ''2. Use bpy.ops and bpy.data modules'',
      ''3. Create objects at origin (0,0,0) unless specified'',
      ''4. Use proper error handling'',
      ''5. Clear any existing selections first'',
      ''6. Select created objects at the end'',
      ''7. Keep code clean and commented'',
      '''',
      ''Example format:'',
      ''import bpy'',
      ''import bmesh'',
      '''',
      ''# Clear existing selection'',
      ''bpy.ops.object.select_all(action='' @ quoted ''DESELECT'' @ '')'',
      '''',
      ''# Your model creation code here'',
      ''bpy.ops.mesh.primitive_cube_add(location=(0, 0, 0))''])"

definition user_prompt :: "props \<Rightarrow> string" where
  "user_prompt props = ''Generate a Blender Python script to create: '' @ prompt props"

definition gemini_request :: "props \<Rightarrow> http_request" where
  "gemini_request props =
     \<lparr>url = ''https://generativelanguage.googleapis.com/v1beta/models/gemini-2.0-flash:generateContent'',
      data = JObj
        [(''contents'',
            JArr [JObj [(''parts'',
              JArr [JObj [(''text'', JStr (system_prompt @ ''\<newline>\<newline>'' @ user_prompt props))]])]]),
         (''generationConfig'',
            JObj [(''temperature'', JDec 7 (- 1)), (''maxOutputTokens'', JInt 1000)])],
      headers = [(''Content-Type'', ''application/json''), (''X-goog-api-key'', api_key props)],
      timeout = 30\<rparr>"

definition anthropic_request :: "props \<Rightarrow> http_request" where
  "anthropic_request props =
     \<lparr>url = ''https://api.anthropic.com/v1/messages'',
      data = JObj
        [(''model'', JStr (anthropic_model props)),
         (''max_tokens'', JInt 1000),
         (''temperature'', JDec 7 (- 1)),
         (''system'', JStr system_prompt),
         (''messages'',
            JArr [JObj [(''role'', JStr ''user''), (''content'', JStr (user_prompt props))]])],
      headers = [(''Content-Type'', ''application/json''), (''x-api-key'', api_key props),
                 (''anthropic-version'', ''2023-06-01'')],
      timeout = 30\<rparr>"

definition openai_request :: "props \<Rightarrow> http_request" where
  "openai_request props =
     \<lparr>url = ''https://api.openai.com/v1/chat/completions'',
      data = JObj
        [(''model'', JStr (openai_model props)),
         (''messages'',
            JArr [JObj [(''role'', JStr ''system''), (''content'', JStr system_prompt)],
                  JObj [(''role'', JStr ''user''), (''content'', JStr (user_prompt props))]]),
         (''temperature'', JDec 7 (- 1)),
         (''max_tokens'', JInt 1000)],
      headers = [(''Content-Type'', ''application/json''),
                 (''Authorization'', ''Bearer '' @ api_key props)],
      timeout = 30\<rparr>"

definition groq_request :: "props \<Rightarrow> http_request" where
  "groq_request props =
     \<lparr>url = ''https://api.groq.com/openai/v1/chat/completions'',
      data = JObj
        [(''model'', JStr (groq_model props)),
         (''messages'',
            JArr [JObj [(''role'', JStr ''system''), (''content'', JStr system_prompt)],
                  JObj [(''role'', JStr ''user''), (''content'', JStr (user_prompt props))]]),
         (''temperature'', JDec 7 (- 1)),
         (''max_tokens'', JInt 1000),
         (''top_p'', JInt 1),
         (''stream'', JBool False)],
      headers = [(''Content-Type'', ''application/json''),
                 (''Authorization'', ''Bearer '' @ api_key props)],
      timeout = 30\<rparr>"

definition custom_request :: "props \<Rightarrow> http_request" where
  "custom_request props =
     \<lparr>url = api_url props,
      data = JObj [(''prompt'', JStr (prompt props)), (''format'', JStr ''blender_python'')],
      headers = [(''Content-Type'', ''application/json'')] @
                (if strip (api_key props) \<noteq> []
                 then [(''Authorization'', ''Bearer '' @ api_key props)] else []),
      timeout = 30\<rparr>"

text \<open>Sending a request: it is logged, and the network answers or raises.\<close>

definition send :: "('s, 'c) env \<Rightarrow> http_request \<Rightarrow> 's world \<Rightarrow> (exn + response) \<times> 's world" where
  "send env req w = (post env req, w\<lparr>http_log := http_log w @ [req]\<rparr>)"

subsection \<open>Reading a reply with status 200\<close>

text \<open>
  What the branch \<open>response.status_code == 200\<close> ends in: the cleaned text, or a message
  that is reported at level ERROR before \<open>None\<close> is returned.
\<close>

datatype extracted = Text string | Invalid string

text \<open>The tail all four share once \<open>content\<close> is bound: two debug prints, then the clean-up.\<close>

definition clean_up :: "json \<Rightarrow> exn + extracted" where
  "clean_up content =
     bind_exn (len content) (\<lambda>_.
     bind_exn (slice_to content 200) (\<lambda>_.
     bind_exn (str_method content ''startswith'') (\<lambda>s.
     bind_exn (cleaned_content s) (\<lambda>cleaned. Inr (Text cleaned)))))"

definition gemini_extract :: "json \<Rightarrow> exn + extracted" where
  "gemini_extract result =
     bind_exn (keys result) (\<lambda>_.
     bind_exn (bind_exn (contains ''candidates'' result) (\<lambda>has.
                 if has then bind_exn (getitem result ''candidates'') (\<lambda>cs.
                               bind_exn (len cs) (\<lambda>n. Inr (n > 0)))
                 else Inr False)) (\<lambda>ok.
     if ok then
       bind_exn (bind_exn (getitem result ''candidates'') getitem0) (\<lambda>candidate.
       bind_exn (keys candidate) (\<lambda>_.
       bind_exn (bind_exn (contains ''content'' candidate) (\<lambda>has.
                   if has then bind_exn (getitem candidate ''content'') (contains ''parts'')
                   else Inr False)) (\<lambda>ok.
       if ok then
         bind_exn (getitem candidate ''content'') (\<lambda>c.
         bind_exn (getitem c ''parts'') (\<lambda>parts.
         bind_exn (getitem0 parts) (\<lambda>part.
         bind_exn (getitem part ''text'') clean_up)))
       else Inr (Invalid ''Invalid response structure from Gemini''))))
     else Inr (Invalid ''No content generated by Gemini'')))"

definition anthropic_extract :: "json \<Rightarrow> exn + extracted" where
  "anthropic_extract result =
     bind_exn (keys result) (\<lambda>_.
     bind_exn (bind_exn (contains ''content'' result) (\<lambda>has.
                 if has then bind_exn (getitem result ''content'') (\<lambda>cs.
                               bind_exn (len cs) (\<lambda>n. Inr (n > 0)))
                 else Inr False)) (\<lambda>ok.
     if ok then
       bind_exn (bind_exn (getitem result ''content'') getitem0) (\<lambda>content_block.
       bind_exn (keys content_block) (\<lambda>_.
       bind_exn (contains ''text'' content_block) (\<lambda>ok.
       if ok then bind_exn (getitem content_block ''text'') clean_up
       else Inr (Invalid ''Invalid response structure from Anthropic''))))
     else Inr (Invalid ''No content generated by Anthropic'')))"

definition openai_extract :: "json \<Rightarrow> exn + extracted" where
  "openai_extract result =
     bind_exn (keys result) (\<lambda>_.
     bind_exn (bind_exn (contains ''choices'' result) (\<lambda>has.
                 if has then bind_exn (getitem result ''choices'') (\<lambda>cs.
                               bind_exn (len cs) (\<lambda>n. Inr (n > 0)))
                 else Inr False)) (\<lambda>ok.
     if ok then
       bind_exn (bind_exn (getitem result ''choices'') getitem0) (\<lambda>choice.
       bind_exn (keys choice) (\<lambda>_.
       bind_exn (bind_exn (contains ''message'' choice) (\<lambda>has.
                   if has then bind_exn (getitem choice ''message'') (contains ''content'')
                   else Inr False)) (\<lambda>ok.
       if ok then
         bind_exn (getitem choice ''message'') (\<lambda>m.
         bind_exn (getitem m ''content'') clean_up)
       else Inr (Invalid ''Invalid response structure from OpenAI''))))
     else Inr (Invalid ''No content generated by OpenAI'')))"

definition groq_extract :: "json \<Rightarrow> exn + extracted" where
  "groq_extract result =
     bind_exn (keys result) (\<lambda>_.
     bind_exn (bind_exn (contains ''choices'' result) (\<lambda>has.
                 if has then bind_exn (getitem result ''choices'') (\<lambda>cs.
                               bind_exn (len cs) (\<lambda>n. Inr (n > 0)))
                 else Inr False)) (\<lambda>ok.
     if ok then
       bind_exn (bind_exn (getitem result ''choices'') getitem0) (\<lambda>choice.
       bind_exn (keys choice) (\<lambda>_.
       bind_exn (bind_exn (contains ''message'' choice) (\<lambda>has.
                   if has then bind_exn (getitem choice ''message'') (contains ''content'')
                   else Inr False)) (\<lambda>ok.
       if ok then
         bind_exn (getitem choice ''message'') (\<lambda>m.
         bind_exn (getitem m ''content'') clean_up)
       else Inr (Invalid ''Invalid response structure from Groq''))))
     else Inr (Invalid ''No content generated by Groq'')))"

subsection \<open>The message for a reply with another status\<close>

text \<open>
  The \<open>try\<close> around the look into the error body has a bare \<open>except: pass\<close>: whatever is
  raised in it, the message stays as it was before.
\<close>

definition gemini_error_msg :: "('s, 'c) env \<Rightarrow> response \<Rightarrow> string" where
  "gemini_error_msg env response =
     (let error_msg = ''Gemini API Error: '' @ str_int (status_code response) in
      if body_text response \<noteq> [] then
        (case bind_exn (body_json response) (\<lambda>error_data.
                bind_exn (contains ''error'' error_data) (\<lambda>has.
                if has then
                  bind_exn (getitem error_data ''error'') (\<lambda>err.
                  bind_exn (get err ''message'' (JStr '''')) (\<lambda>m.
                  Inr (error_msg @ '' - '' @ format env m)))
                else Inr error_msg)) of
           Inl e \<Rightarrow> error_msg
         | Inr m \<Rightarrow> m)
      else error_msg)"

definition groq_error_msg :: "('s, 'c) env \<Rightarrow> response \<Rightarrow> string" where
  "groq_error_msg env response =
     (let error_msg = ''Groq API Error: '' @ str_int (status_code response) in
      if body_text response \<noteq> [] then
        (case bind_exn (body_json response) (\<lambda>error_data.
                bind_exn (contains ''error'' error_data) (\<lambda>has.
                if has then
                  bind_exn (getitem error_data ''error'') (\<lambda>err.
                  bind_exn (get err ''message'' (JStr '''')) (\<lambda>m.
                  Inr (error_msg @ '' - '' @ format env m)))
                else Inr error_msg)) of
           Inl e \<Rightarrow> error_msg
         | Inr m \<Rightarrow> m)
      else error_msg)"

definition anthropic_error_msg :: "('s, 'c) env \<Rightarrow> response \<Rightarrow> string" where
  "anthropic_error_msg env response =
     (let error_msg = ''Anthropic API Error: '' @ str_int (status_code response) in
      if body_text response \<noteq> [] then
        (case bind_exn (body_json response) (\<lambda>error_data.
                bind_exn (contains ''error'' error_data) (\<lambda>has.
                if has then
                  bind_exn (getitem error_data ''error'') (\<lambda>err.
                  bind_exn (get err ''type'' (JStr '''')) (\<lambda>error_type.
                  bind_exn (get err ''message'' (JStr '''')) (\<lambda>error_message.
                  if error_type = JStr ''authentication_error'' then
                    Inr ''Invalid Anthropic API key. Check your key at console.anthropic.com''
                  else if error_type = JStr ''permission_error'' then
                    Inr ''Anthropic API permission denied. Check your account access''
                  else Inr (error_msg @ '' - '' @ format env error_message))))
                else Inr error_msg)) of
           Inl e \<Rightarrow> error_msg
         | Inr m \<Rightarrow> m)
      else error_msg)"

definition openai_error_msg :: "('s, 'c) env \<Rightarrow> response \<Rightarrow> string" where
  "openai_error_msg env response =
     (let error_msg = ''OpenAI API Error: '' @ str_int (status_code response) in
      if body_text response \<noteq> [] then
        (case bind_exn (body_json response) (\<lambda>error_data.
                bind_exn (contains ''error'' error_data) (\<lambda>has.
                if has then
                  bind_exn (getitem error_data ''error'') (\<lambda>err.
                  bind_exn (get err ''type'' (JStr '''')) (\<lambda>error_type.
                  bind_exn (get err ''message'' (JStr '''')) (\<lambda>error_message.
                  if error_type = JStr ''insufficient_quota'' then
                    Inr ''OpenAI quota exceeded. Please add credits at platform.openai.com/billing''
                  else if error_type = JStr ''invalid_api_key'' then
                    Inr ''Invalid OpenAI API key. Check your key at platform.openai.com/api-keys''
                  else Inr (error_msg @ '' - '' @ format env error_message))))
                else Inr error_msg)) of
           Inl e \<Rightarrow> error_msg
         | Inr m \<Rightarrow> m)
      else error_msg)"

subsection \<open>The five calls and their dispatch\<close>

text \<open>
  Each call returns what the Python method returns (\<open>JNull\<close> for \<open>None\<close>) or the exception
  that leaves it, and the world after it.
\<close>

definition finish :: "exn + extracted \<Rightarrow> 's world \<Rightarrow> (exn + json) \<times> 's world" where
  "finish r w =
     (case r of
        Inl e \<Rightarrow> (Inl e, w)
      | Inr (Text cleaned) \<Rightarrow> (Inr (JStr cleaned), w)
      | Inr (Invalid m) \<Rightarrow> (Inr JNull, report ERROR m w))"

definition call_gemini_api :: "('s, 'c) env \<Rightarrow> props \<Rightarrow> 's world \<Rightarrow> (exn + json) \<times> 's world" where
  "call_gemini_api env props w =
     (if strip (api_key props) = [] then
        (Inr JNull, report ERROR ''Please enter your Gemini API key'' w)
      else
        case send env (gemini_request props) w of
          (Inl e, w') \<Rightarrow> (Inl e, w')
        | (Inr response, w') \<Rightarrow>
            if status_code response = 200 then
              finish (bind_exn (body_json response) gemini_extract) w'
            else (Inr JNull, report ERROR (gemini_error_msg env response) w'))"

definition call_anthropic_api :: "('s, 'c) env \<Rightarrow> props \<Rightarrow> 's world \<Rightarrow> (exn + json) \<times> 's world" where
  "call_anthropic_api env props w =
     (if strip (api_key props) = [] then
        (Inr JNull, report ERROR ''Please enter your Anthropic API key'' w)
      else
        case send env (anthropic_request props) w of
          (Inl e, w') \<Rightarrow> (Inl e, w')
        | (Inr response, w') \<Rightarrow>
            if status_code response = 200 then
              finish (bind_exn (body_json response) anthropic_extract) w'
            else (Inr JNull, report ERROR (anthropic_error_msg env response) w'))"

definition call_openai_api :: "('s, 'c) env \<Rightarrow> props \<Rightarrow> 's world \<Rightarrow> (exn + json) \<times> 's world" where
  "call_openai_api env props w =
     (if strip (api_key props) = [] then
        (Inr JNull, report ERROR ''Please enter your OpenAI API key'' w)
      else
        case send env (openai_request props) w of
          (Inl e, w') \<Rightarrow> (Inl e, w')
        | (Inr response, w') \<Rightarrow>
            if status_code response = 200 then
              finish (bind_exn (body_json response) openai_extract) w'
            else (Inr JNull, report ERROR (openai_error_msg env response) w'))"

definition call_groq_api :: "('s, 'c) env \<Rightarrow> props \<Rightarrow> 's world \<Rightarrow> (exn + json) \<times> 's world" where
  "call_groq_api env props w =
     (if strip (api_key props) = [] then
        (Inr JNull, report ERROR ''Please enter your Groq API key'' w)
      else
        case send env (groq_request props) w of
          (Inl e, w') \<Rightarrow> (Inl e, w')
        | (Inr response, w') \<Rightarrow>
            if status_code response = 200 then
              finish (bind_exn (body_json response) groq_extract) w'
            else (Inr JNull, report ERROR (groq_error_msg env response) w'))"

text \<open>
  The custom endpoint: no key is required, the script is whatever sits under \<open>"script"\<close>
  (the empty str when the key is missing), and the two handlers turn a
  RequestException and a JSONDecodeError into a message, in this order.
\<close>

definition call_custom_api :: "('s, 'c) env \<Rightarrow> props \<Rightarrow> 's world \<Rightarrow> (exn + json) \<times> 's world" where
  "call_custom_api env props w =
     (case (case send env (custom_request props) w of
              (Inl e, w') \<Rightarrow> (Inl e, w')
            | (Inr response, w') \<Rightarrow>
                if status_code response = 200 then
                  (bind_exn (body_json response) (\<lambda>result. get result ''script'' (JStr '''')), w')
                else
                  (Inr JNull, report ERROR (''API Error: '' @ str_int (status_code response)) w')) of
        (Inl e, w') \<Rightarrow>
          if isinstance_RequestException e then
            (Inr JNull, report ERROR (''Network Error: '' @ str_exn e) w')
          else if isinstance_JSONDecodeError e then
            (Inr JNull, report ERROR ''Invalid JSON response from API'' w')
          else (Inl e, w')
      | (Inr v, w') \<Rightarrow> (Inr v, w'))"

definition call_api :: "('s, 'c) env \<Rightarrow> props \<Rightarrow> 's world \<Rightarrow> (exn + json) \<times> 's world" where
  "call_api env props w =
     (case (case api_provider props of
              GEMINI \<Rightarrow> call_gemini_api env props w
            | GROQ \<Rightarrow> call_groq_api env props w
            | OPENAI \<Rightarrow> call_openai_api env props w
            | ANTHROPIC \<Rightarrow> call_anthropic_api env props w
            | CUSTOM \<Rightarrow> call_custom_api env props w) of
        (Inl e, w') \<Rightarrow>
          if isinstance_Exception e then
            (Inr JNull, report ERROR (''API Error: '' @ str_exn e) w')
          else (Inl e, w')
      | (Inr v, w') \<Rightarrow> (Inr v, w'))"

section \<open>Running the script\<close>

definition clear_scene :: "('s, 'c) env \<Rightarrow> 's \<Rightarrow> (exn + unit) \<times> 's" where
  "clear_scene env = bind_host (select_all env) (\<lambda>_. delete env)"

text \<open>
  \<open>execute_script\<close>: everything happens inside one \<open>try\<close>, whose handler reports any
  \<open>Exception\<close> and returns; the scene stays as the raising call left it.
\<close>

definition execute_script ::
  "('s, 'c) env \<Rightarrow> string \<Rightarrow> props \<Rightarrow> 's world \<Rightarrow> (exn + unit) \<times> 's world"
where
  "execute_script env script_code props w =
     (case bind_host (if auto_clear props then clear_scene env else (\<lambda>s. (Inr (), s))) (\<lambda>_.
           bind_host (collections_new env (''AI_Generated_'' @ take 20 (prompt props))) (\<lambda>collection.
           bind_host (children_link env collection) (\<lambda>_.
           bind_host (exec env script_code collection) (\<lambda>_.
           view_layer_update env)))) (scene w) of
        (Inl e, s') \<Rightarrow>
          if isinstance_Exception e then
            (Inr (), report ERROR (''Script execution error: '' @ str_exn e) (w\<lparr>scene := s'\<rparr>))
          else (Inl e, w\<lparr>scene := s'\<rparr>)
      | (Inr _, s') \<Rightarrow> (Inr (), w\<lparr>scene := s'\<rparr>))"

section \<open>The operator: \<open>AIGEN_OT_generate.execute\<close>\<close>

text \<open>
  The condition \<open>script_code and script_code.strip()\<close>: the stripped text when it is a
  usable script, \<open>None\<close> when the condition is false.
\<close>

definition usable_script :: "json \<Rightarrow> exn + string option" where
  "usable_script script_code =
     (if truthy script_code then
        bind_exn (str_method script_code ''strip'') (\<lambda>s.
          Inr (if strip s \<noteq> [] then Some s else None))
      else Inr None)"

definition execute :: "('s, 'c) env \<Rightarrow> props \<Rightarrow> 's world \<Rightarrow> (exn + status) \<times> 's world" where
  "execute env props w =
     (if strip (prompt props) = [] then
        (Inr CANCELLED, report ERROR ''Please enter a prompt'' w)
      else
        case (case call_api env props (report INFO (''Generating model for: '' @ prompt props) w) of
                (Inl e, w') \<Rightarrow> (Inl e, w')
              | (Inr script_code, w') \<Rightarrow>
                  (case usable_script script_code of
                     Inl e \<Rightarrow> (Inl e, w')
                   | Inr (Some script) \<Rightarrow>
                       (case execute_script env script props w' of
                          (Inl e, w'') \<Rightarrow> (Inl e, w'')
                        | (Inr _, w'') \<Rightarrow>
                            (Inr FINISHED, report INFO ''Model generated successfully!'' w''))
                   | Inr None \<Rightarrow>
                       (Inr CANCELLED, report ERROR ''Failed to get valid script from API'' w'))) of
          (Inl e, w') \<Rightarrow>
            if isinstance_Exception e then
              (Inr CANCELLED, report ERROR (''Error: '' @ str_exn e) w')
            else (Inl e, w')
        | (Inr st, w') \<Rightarrow> (Inr st, w'))"

section \<open>Vocabulary of the statements\<close>

text \<open>The request that the call for the chosen provider sends.\<close>

definition request_for :: "props \<Rightarrow> http_request" where
  "request_for props =
     (case api_provider props of
        GEMINI \<Rightarrow> gemini_request props
      | GROQ \<Rightarrow> groq_request props
      | OPENAI \<Rightarrow> openai_request props
      | ANTHROPIC \<Rightarrow> anthropic_request props
      | CUSTOM \<Rightarrow> custom_request props)"

text \<open>The world after one request has been sent.\<close>

definition sent :: "http_request \<Rightarrow> 's world \<Rightarrow> 's world" where
  "sent req w = w\<lparr>http_log := http_log w @ [req]\<rparr>"

text \<open>
  For the four providers with a fixed reply format: the name used in their messages, the
  key of the reply that holds the list of answers, and the key that the code looks for
  in the first answer. The values at \<open>CUSTOM\<close> are not used.
\<close>

fun provider_label :: "provider \<Rightarrow> string" where
  "provider_label GEMINI = ''Gemini''"
| "provider_label GROQ = ''Groq''"
| "provider_label OPENAI = ''OpenAI''"
| "provider_label ANTHROPIC = ''Anthropic''"
| "provider_label CUSTOM = ''Custom''"

fun top_key :: "provider \<Rightarrow> string" where
  "top_key GEMINI = ''candidates''"
| "top_key GROQ = ''choices''"
| "top_key OPENAI = ''choices''"
| "top_key ANTHROPIC = ''content''"
| "top_key CUSTOM = ''script''"

fun nested_key :: "provider \<Rightarrow> string" where
  "nested_key GEMINI = ''content''"
| "nested_key GROQ = ''message''"
| "nested_key OPENAI = ''message''"
| "nested_key ANTHROPIC = ''text''"
| "nested_key CUSTOM = ''script''"

text \<open>
  The key that the code looks for one level further down, inside the value of
  \<open>nested_key\<close>, where there is such a level.
\<close>

fun inner_key :: "provider \<Rightarrow> string option" where
  "inner_key GEMINI = Some ''parts''"
| "inner_key GROQ = Some ''content''"
| "inner_key OPENAI = Some ''content''"
| "inner_key ANTHROPIC = None"
| "inner_key CUSTOM = None"

text \<open>
  The host calls of \<open>execute_script\<close> that come before \<open>exec\<close>: the optional clearing, the
  new collection and its linking. The result is the collection handed to the script.
\<close>

definition prepare :: "('s, 'c) env \<Rightarrow> props \<Rightarrow> 's \<Rightarrow> (exn + 'c) \<times> 's" where
  "prepare env props =
     bind_host (if auto_clear props then clear_scene env else (\<lambda>s. (Inr (), s))) (\<lambda>_.
     bind_host (collections_new env (''AI_Generated_'' @ take 20 (prompt props))) (\<lambda>collection.
     bind_host (children_link env collection) (\<lambda>_ s. (Inr collection, s))))"

subsection \<open>A concrete setting for the examples\<close>

text \<open>
  A scene is the list of the names in it. The network gives one fixed answer; clearing
  empties the scene, linking adds the collection, and the script adds a cube and then
  ends as \<open>outcome\<close> says. The settings are the defaults of \<open>AIGenProperties\<close> with a
  provider and a key.
\<close>

definition example_env :: "(exn + response) \<Rightarrow> (exn + unit) \<Rightarrow> (string list, string) env" where
  "example_env answer outcome =
     \<lparr>post = (\<lambda>req. answer),
      repr = (\<lambda>v. ''?''),
      select_all = (\<lambda>s. (Inr (), s)),
      delete = (\<lambda>s. (Inr (), [])),
      collections_new = (\<lambda>name s. (Inr name, s)),
      children_link = (\<lambda>c s. (Inr (), s @ [c])),
      exec = (\<lambda>code c s. (outcome, s @ [''Cube''])),
      view_layer_update = (\<lambda>s. (Inr (), s))\<rparr>"

definition example_props :: "provider \<Rightarrow> string \<Rightarrow> props" where
  "example_props p key =
     \<lparr>prompt = ''Create a simple cube'',
      api_provider = p,
      groq_model = ''llama-3.3-70b-versatile'',
      openai_model = ''gpt-4.1-mini'',
      anthropic_model = ''claude-sonnet-4-20250514'',
      api_url = ''http://localhost:8000/generate'',
      api_key = key,
      auto_clear = True\<rparr>"

definition example_world :: "string list world" where
  "example_world = \<lparr>reports = [], http_log = [], scene = [''Camera'']\<rparr>"

definition ok_response :: "json \<Rightarrow> response" where
  "ok_response v = \<lparr>status_code = 200, body_text = ''{...}'', body_json = Inr v\<rparr>"
section \<open>The specification's reading of the clean-up\<close>

text \<open>
  The specification's words: when the text starts with a fence marker, the text between
  that marker and the next fence, trimmed; otherwise the trimmed text.
\<close>

definition spec_postprocess :: "string \<Rightarrow> string" where
  "spec_postprocess text =
     (if startswith text ''```python'' then strip (before (drop 9 text) ''```'')
      else if startswith text ''```'' then strip (before (drop 3 text) ''```'')
      else strip text)"

section \<open>Properties of the string operations\<close>

lemma py_find_bound: "py_find s sep = Some i \<Longrightarrow> i \<le> length s"
  by (induction s arbitrary: i) (auto split: if_splits)

lemma py_find_None_iff: "py_find s sep = None \<longleftrightarrow> \<not> sublist sep s"
  by (induction s) (auto simp: sublist_Cons_right)

lemma py_find_prefix: "prefix sep s \<Longrightarrow> py_find s sep = Some 0"
  by (cases s) auto

lemma py_split_first:
  assumes "sep \<noteq> []"
  shows "index_py (py_split s sep) 0 = Inr (before s sep)"
  using assms
  by (subst py_split.simps) (simp add: index_py_def before_def split: option.splits)

lemma py_split_second:
  assumes "sep \<noteq> []" and "prefix sep s"
  shows "index_py (py_split s sep) 1 = Inr (before (drop (length sep) s) sep)"
proof -
  have "py_split s sep = [] # py_split (drop (length sep) s) sep"
    using assms by (subst py_split.simps) (simp add: py_find_prefix)
  moreover have "py_split (drop (length sep) s) sep \<noteq> []"
    using assms(1) by (subst py_split.simps) (simp split: option.splits)
  moreover have "hd (py_split (drop (length sep) s) sep) = before (drop (length sep) s) sep"
    using assms(1) by (subst py_split.simps) (simp add: before_def split: option.splits)
  ultimately show ?thesis
    by (cases "py_split (drop (length sep) s) sep") (simp_all add: index_py_def)
qed

lemma prefix_fence: "prefix ''```python'' s \<Longrightarrow> prefix ''```'' s"
proof -
  assume "prefix ''```python'' s"
  moreover have "prefix ''```'' ''```python''" by simp
  ultimately show ?thesis by (rule prefix_order.trans [rotated])
qed

lemma before_Nil: "before [] sep = []"
  by (simp add: before_def)

lemma before_Cons:
  "sep \<noteq> [] \<Longrightarrow> before (c # cs) sep = (if prefix sep (c # cs) then [] else c # before cs sep)"
  by (simp add: before_def split: option.splits)

lemma before_found: "prefix sep s \<Longrightarrow> before s sep = []"
  by (simp add: before_def py_find_prefix)

lemma before_not_found:
  "sep \<noteq> [] \<Longrightarrow> \<not> prefix sep (c # cs) \<Longrightarrow> before (c # cs) sep = c # before cs sep"
  by (simp add: before_Cons)

lemma before_prefix: "prefix (before s sep) s"
  by (simp add: before_def take_is_prefix split: option.splits)

lemma py_find_before: "sep \<noteq> [] \<Longrightarrow> py_find (before s sep) sep = None"
proof (induction s)
  case Nil
  then show ?case by (simp add: before_def)
next
  case (Cons c cs)
  show ?case
  proof (cases "prefix sep (c # cs)")
    case True
    then show ?thesis using Cons.prems by (simp add: before_Cons)
  next
    case False
    have "\<not> prefix sep (c # before cs sep)"
      using False before_prefix [of cs sep] by (meson Cons_prefix_Cons prefix_order.trans)
    then show ?thesis using False Cons by (simp add: before_Cons)
  qed
qed

lemma before_idem: "sep \<noteq> [] \<Longrightarrow> before (before s sep) sep = before s sep"
  using py_find_before [of sep s] by (simp add: before_def [of "before s sep"])

lemma cleaned_content_eq:
  "cleaned_content content =
     Inr (strip (if startswith content ''```python''
                 then before (before (drop 9 content) ''```python'') ''```''
                 else if startswith content ''```'' then before (drop 3 content) ''```''
                 else content))"
proof -
  have l9: "length ''```python'' = 9" and l3: "length ''```'' = 3"
    by simp_all
  have a: "index_py (py_split content ''```python'') (Suc 0) = Inr (before (drop 9 content) ''```python'')"
    if "prefix ''```python'' content"
  proof -
    have "''```python'' \<noteq> []" by simp
    from py_split_second [OF this that] show ?thesis by (simp only: l9 One_nat_def)
  qed
  have b: "index_py (py_split content ''```'') (Suc 0) = Inr (before (drop 3 content) ''```'')"
    if "prefix ''```'' content"
  proof -
    have "''```'' \<noteq> []" by simp
    from py_split_second [OF this that] show ?thesis by (simp only: l3 One_nat_def)
  qed
  have c: "index_py (py_split s ''```'') 0 = Inr (before s ''```'')" for s
    using py_split_first [of "''```''" s] by simp
  show ?thesis
    unfolding cleaned_content_def startswith_def
    by (simp add: a b c before_idem bind_exn_def)
qed

lemma before_fence_agree:
  "\<not> sublist ''````python'' r \<Longrightarrow>
     before (before r ''```python'') ''```'' = before r ''```''"
proof (induction r)
  case Nil
  then show ?case by (simp add: before_Nil)
next
  case (Cons c cs)
  have nsub: "\<not> sublist ''````python'' cs" and npre: "\<not> prefix ''````python'' (c # cs)"
    using Cons.prems by (auto simp: sublist_Cons_right)
  show ?case
  proof (cases "prefix ''```python'' (c # cs)")
    case True
    then have "prefix ''```'' (c # cs)" by (rule prefix_fence)
    then have "before (c # cs) ''```'' = []" by (rule before_found)
    moreover have "before (c # cs) ''```python'' = []" using True by (rule before_found)
    ultimately show ?thesis by (simp only: before_Nil)
  next
    case False
    note notP = this
    show ?thesis
    proof (cases "prefix ''```'' (c # cs)")
      case True
      then obtain rest where r: "c # cs = ''```'' @ rest" by (auto simp: prefix_def)
      then have c: "c = CHR 0x60" and cs: "cs = CHR 0x60 # CHR 0x60 # rest"
        by simp_all
      have n1: "\<not> prefix ''```python'' (CHR 0x60 # CHR 0x60 # rest)"
      proof
        assume "prefix ''```python'' (CHR 0x60 # CHR 0x60 # rest)"
        then have "prefix ''````python'' (c # cs)" unfolding c cs by simp
        with npre show False by blast
      qed
      have n2: "\<not> prefix ''```python'' (CHR 0x60 # rest)"
      proof
        assume "prefix ''```python'' (CHR 0x60 # rest)"
        then have "prefix ''````python'' cs" unfolding cs by simp
        then have "sublist ''````python'' cs" by (rule prefix_imp_sublist)
        with nsub show False by blast
      qed
      have "before cs ''```python'' = CHR 0x60 # CHR 0x60 # before rest ''```python''"
        unfolding cs using n1 n2 by (simp add: before_Cons)
      then have "before (c # cs) ''```python'' = ''```'' @ before rest ''```python''"
        using notP unfolding c by (simp add: before_Cons)
      then have "before (before (c # cs) ''```python'') ''```'' = []"
        by (simp add: before_Cons)
      moreover have "before (c # cs) ''```'' = []"
        using True by (rule before_found)
      ultimately show ?thesis by simp
    next
      case False
      have "\<not> prefix ''```'' (c # before cs ''```python'')"
        using False before_prefix [of cs "''```python''"]
        by (meson Cons_prefix_Cons prefix_order.trans)
      then have "before (c # before cs ''```python'') ''```'' =
          c # before (before cs ''```python'') ''```''"
        by (intro before_not_found) simp_all
      moreover have "before (c # cs) ''```python'' = c # before cs ''```python''"
        using notP by (intro before_not_found) simp_all
      moreover have "before (c # cs) ''```'' = c # before cs ''```''"
        using False by (intro before_not_found) simp_all
      ultimately show ?thesis
        using Cons.IH [OF nsub] by (simp only:)
    qed
  qed
qed


lemma before_absent: "\<not> sublist sep s \<Longrightarrow> before s sep = s"
proof -
  assume "\<not> sublist sep s"
  then have "py_find s sep = None" using py_find_None_iff by blast
  then show ?thesis by (simp add: before_def)
qed

lemma no_fence_no_python: "\<not> sublist ''```'' s \<Longrightarrow> \<not> sublist ''```python'' s"
proof
  assume "\<not> sublist ''```'' s" and "sublist ''```python'' s"
  moreover have "sublist ''```'' ''```python''" by (rule prefix_imp_sublist) simp
  ultimately show False using sublist_order.order_trans by blast
qed

section \<open>The clean-up of the reply text\<close>

text \<open>
  C2. The code fails the claim at the reply \<open>```pythonx````python\<close>. The branch for
  \<open>```python\<close> first cuts at the second \<open>```python\<close> and only then looks for a
  closing fence in what is left, so it returns \<open>x`\<close>; the text between the opening
  marker and the next fence is \<open>x\<close>. The branch for a bare \<open>```\<close> cuts the same tail
  at its first fence and returns \<open>x\<close>.
\<close>

theorem cleaned_content_fence_slip:
  "cleaned_content ''```pythonx````python'' = Inr ''x`'' \<and>
   spec_postprocess ''```pythonx````python'' = ''x'' \<and>
   cleaned_content ''```x````python'' = Inr ''x''"
  by code_simp

text \<open>
  A sufficient condition for the code to do what the specification says: the text does
  not start with \<open>```python\<close>, or it nowhere has four backquotes directly followed by
  \<open>python\<close>. Then the result is the text between the opening marker and the next fence
  (the rest of the text when there is none), trimmed, and the trimmed text itself when
  there is no opening marker.
\<close>

lemma cleaned_content_agrees:
  assumes "startswith content ''```python'' \<longrightarrow> \<not> sublist ''````python'' content"
  shows "cleaned_content content = Inr (spec_postprocess content)"
proof (cases "startswith content ''```python''")
  case True
  have "\<not> sublist ''````python'' (drop 9 content)"
  proof
    assume "sublist ''````python'' (drop 9 content)"
    moreover have "sublist (drop 9 content) content" by (rule sublist_drop)
    ultimately have "sublist ''````python'' content" by (rule sublist_order.order_trans)
    with assms True show False by blast
  qed
  then have "before (before (drop 9 content) ''```python'') ''```'' = before (drop 9 content) ''```''"
    by (rule before_fence_agree)
  with True show ?thesis
    by (simp add: cleaned_content_eq spec_postprocess_def)
next
  case False
  then show ?thesis
    by (simp add: cleaned_content_eq spec_postprocess_def)
qed

text \<open>The reply of the specification's Gemini example is such a text.\<close>

lemma cleaned_content_agrees_example:
  "\<not> sublist ''````python'' ''```python\<newline>X\<newline>```'' \<and>
   cleaned_content ''```python\<newline>X\<newline>```'' = Inr ''X''"
proof -
  have n: "\<not> sublist ''````python'' ''```python\<newline>X\<newline>```''"
    by code_simp
  then have h: "startswith ''```python\<newline>X\<newline>```'' ''```python'' \<longrightarrow>
      \<not> sublist ''````python'' ''```python\<newline>X\<newline>```''"
    by blast
  have "spec_postprocess ''```python\<newline>X\<newline>```'' = ''X''"
    by code_simp
  with n cleaned_content_agrees [OF h] show ?thesis by simp
qed

text \<open>
  C10. A reply that starts with \<open>```python\<close> or with \<open>```\<close> and has no fence behind
  that opening marker does not make the clean-up raise: the result is everything behind
  the opening marker, trimmed.
\<close>

theorem cleaned_content_unclosed:
  "(startswith content ''```python'' \<and> \<not> sublist ''```'' (drop 9 content) \<longrightarrow>
      cleaned_content content = Inr (strip (drop 9 content))) \<and>
   (startswith content ''```'' \<and> \<not> startswith content ''```python'' \<and>
      \<not> sublist ''```'' (drop 3 content) \<longrightarrow>
      cleaned_content content = Inr (strip (drop 3 content)))"
proof (intro conjI impI)
  assume a: "startswith content ''```python'' \<and> \<not> sublist ''```'' (drop 9 content)"
  then have "\<not> sublist ''```python'' (drop 9 content)" using no_fence_no_python by blast
  then have "before (drop 9 content) ''```python'' = drop 9 content" by (rule before_absent)
  moreover have "before (drop 9 content) ''```'' = drop 9 content" using a before_absent by blast
  ultimately show "cleaned_content content = Inr (strip (drop 9 content))"
    using a by (simp add: cleaned_content_eq)
next
  assume a: "startswith content ''```'' \<and> \<not> startswith content ''```python'' \<and>
      \<not> sublist ''```'' (drop 3 content)"
  then have "before (drop 3 content) ''```'' = drop 3 content" using before_absent by blast
  then show "cleaned_content content = Inr (strip (drop 3 content))"
    using a by (simp add: cleaned_content_eq)
qed

text \<open>C10 at two replies without a closing fence, one for each opening marker.\<close>

theorem cleaned_content_unclosed_witness:
  "(startswith ''```python\<newline>X '' ''```python'' \<and> \<not> sublist ''```'' (drop 9 ''```python\<newline>X '')) \<and>
   cleaned_content ''```python\<newline>X '' = Inr ''X'' \<and>
   (startswith ''```json X'' ''```'' \<and> \<not> startswith ''```json X'' ''```python'' \<and>
      \<not> sublist ''```'' (drop 3 ''```json X'')) \<and>
   cleaned_content ''```json X'' = Inr ''json X''"
proof -
  have h1: "startswith ''```python\<newline>X '' ''```python'' \<and> \<not> sublist ''```'' (drop 9 ''```python\<newline>X '')"
    by code_simp
  have h2: "startswith ''```json X'' ''```'' \<and> \<not> startswith ''```json X'' ''```python'' \<and>
      \<not> sublist ''```'' (drop 3 ''```json X'')"
    by code_simp
  have s1: "strip (drop 9 ''```python\<newline>X '') = ''X''" by code_simp
  have s2: "strip (drop 3 ''```json X'') = ''json X''" by code_simp
  from cleaned_content_unclosed [of "''```python\<newline>X ''"] h1
  have "cleaned_content ''```python\<newline>X '' = Inr (strip (drop 9 ''```python\<newline>X ''))"
    by blast
  then have r1: "cleaned_content ''```python\<newline>X '' = Inr ''X''" by (simp only: s1)
  from cleaned_content_unclosed [of "''```json X''"] h2
  have "cleaned_content ''```json X'' = Inr (strip (drop 3 ''```json X''))"
    by blast
  then have r2: "cleaned_content ''```json X'' = Inr ''json X''" by (simp only: s2)
  from h1 h2 r1 r2 show ?thesis by blast
qed


section \<open>Properties of the provider calls and of the operator\<close>

lemma strip_Nil_iff: "strip s = [] \<longleftrightarrow> (\<forall>c\<in>set s. isspace c)"
proof
  assume "strip s = []"
  then have "\<forall>c\<in>set (dropWhile isspace s). isspace c"
    by (simp add: strip_def dropWhile_eq_Nil_conv)
  then have "dropWhile isspace s = []"
    by (metis hd_dropWhile hd_in_set)
  then show "\<forall>c\<in>set s. isspace c" by (simp add: dropWhile_eq_Nil_conv)
next
  assume "\<forall>c\<in>set s. isspace c"
  then show "strip s = []" by (auto simp: strip_def dest: set_dropWhileD)
qed

lemma scene_report [simp]: "scene (report l m w) = scene w"
  by (simp add: report_def)

lemma http_log_report [simp]: "http_log (report l m w) = http_log w"
  by (simp add: report_def)

lemma reports_report [simp]: "reports (report l m w) = reports w @ [(l, m)]"
  by (simp add: report_def)

lemma scene_finish [simp]: "scene (snd (finish r w)) = scene w"
  by (simp add: finish_def split: sum.splits extracted.splits)

lemma scene_send [simp]: "scene (snd (send env req w)) = scene w"
  by (simp add: send_def)

lemma call_gemini_api_scene: "scene (snd (call_gemini_api env props w)) = scene w"
  by (simp add: call_gemini_api_def send_def split: sum.splits prod.splits)

lemma call_groq_api_scene: "scene (snd (call_groq_api env props w)) = scene w"
  by (simp add: call_groq_api_def send_def split: sum.splits prod.splits)

lemma call_openai_api_scene: "scene (snd (call_openai_api env props w)) = scene w"
  by (simp add: call_openai_api_def send_def split: sum.splits prod.splits)

lemma call_anthropic_api_scene: "scene (snd (call_anthropic_api env props w)) = scene w"
  by (simp add: call_anthropic_api_def send_def split: sum.splits prod.splits)

lemma call_custom_api_scene: "scene (snd (call_custom_api env props w)) = scene w"
  by (simp add: call_custom_api_def send_def split: sum.splits prod.splits)

lemma call_api_scene: "scene (snd (call_api env props w)) = scene w"
proof -
  have h: "scene (snd (case r of (Inl e, w') \<Rightarrow>
          if isinstance_Exception e then (Inr JNull, report ERROR (''API Error: '' @ str_exn e) w')
          else (Inl e, w') | (Inr v, w') \<Rightarrow> (Inr v, w'))) = scene (snd r)"
    for r :: "(exn + json) \<times> 's world"
    by (simp split: prod.splits sum.splits)
  show ?thesis
    unfolding call_api_def h
    by (simp add: call_gemini_api_scene call_groq_api_scene call_openai_api_scene
        call_anthropic_api_scene call_custom_api_scene split: provider.splits)
qed


lemma strip_Nil_list_all: "list_all isspace s \<Longrightarrow> strip s = []"
  by (simp add: strip_Nil_iff list_all_iff)

lemma usable_script_None [simp]: "usable_script JNull = Inr None"
  by (simp add: usable_script_def)

lemma usable_script_blank: "strip s = [] \<Longrightarrow> usable_script (JStr s) = Inr None"
  by (simp add: usable_script_def bind_exn_def)

lemma call_api_missing_key:
  assumes "api_provider props \<noteq> CUSTOM" and "strip (api_key props) = []"
  shows "call_api env props w =
     (Inr JNull,
      report ERROR (''Please enter your '' @ provider_label (api_provider props) @ '' API key'') w)"
  using assms
  by (cases "api_provider props")
     (simp_all add: call_api_def call_gemini_api_def call_groq_api_def call_openai_api_def
        call_anthropic_api_def)

text \<open>
  C1. For GEMINI, GROQ, OPENAI and ANTHROPIC, a key that is empty or made of whitespace
  only makes the provider call return \<open>None\<close> with the message asking for the key, and
  neither the call nor the whole generate action sends an HTTP request.
\<close>

theorem missing_credential_rejected:
  assumes "api_provider props \<noteq> CUSTOM" and "list_all isspace (api_key props)"
  shows "call_api env props w =
           (Inr JNull,
            report ERROR
              (''Please enter your '' @ provider_label (api_provider props) @ '' API key'') w) \<and>
         http_log (snd (call_api env props w)) = http_log w \<and>
         http_log (snd (execute env props w)) = http_log w \<and>
         fst (execute env props w) = Inr CANCELLED"
proof -
  have blank: "strip (api_key props) = []"
    using assms(2) by (rule strip_Nil_list_all)
  note call = call_api_missing_key [OF assms(1) blank]
  have "http_log (snd (execute env props w)) = http_log w \<and>
        fst (execute env props w) = Inr CANCELLED"
    by (simp add: execute_def call)
  then show ?thesis by (simp add: call)
qed

text \<open>C1 at the Groq provider with a key of two spaces.\<close>

theorem missing_credential_rejected_witness:
  "api_provider (example_props GROQ ''  '') \<noteq> CUSTOM \<and>
   list_all isspace (api_key (example_props GROQ ''  '')) \<and>
   call_api (example_env (Inr (ok_response JNull)) (Inr ())) (example_props GROQ ''  '') example_world =
     (Inr JNull, \<lparr>reports = [(ERROR, ''Please enter your Groq API key'')], http_log = [],
                 scene = [''Camera'']\<rparr>) \<and>
   http_log (snd (execute (example_env (Inr (ok_response JNull)) (Inr ()))
                    (example_props GROQ ''  '') example_world)) = []"
proof -
  have h1: "api_provider (example_props GROQ ''  '') \<noteq> CUSTOM"
    by (simp add: example_props_def)
  have h2: "list_all isspace (api_key (example_props GROQ ''  ''))"
    by (simp add: example_props_def isspace_def)
  from missing_credential_rejected [OF h1 h2, of "example_env (Inr (ok_response JNull)) (Inr ())" example_world]
  show ?thesis
    using h1 h2 by (simp add: example_props_def example_world_def report_def)
qed

lemma call_gemini_api_non_200:
  assumes "post env (gemini_request props) = Inr response" "status_code response \<noteq> 200"
  shows "fst (call_gemini_api env props w) = Inr JNull"
  using assms by (simp add: call_gemini_api_def send_def)

lemma call_groq_api_non_200:
  assumes "post env (groq_request props) = Inr response" "status_code response \<noteq> 200"
  shows "fst (call_groq_api env props w) = Inr JNull"
  using assms by (simp add: call_groq_api_def send_def)

lemma call_openai_api_non_200:
  assumes "post env (openai_request props) = Inr response" "status_code response \<noteq> 200"
  shows "fst (call_openai_api env props w) = Inr JNull"
  using assms by (simp add: call_openai_api_def send_def)

lemma call_anthropic_api_non_200:
  assumes "post env (anthropic_request props) = Inr response" "status_code response \<noteq> 200"
  shows "fst (call_anthropic_api env props w) = Inr JNull"
  using assms by (simp add: call_anthropic_api_def send_def)

lemma call_custom_api_non_200:
  assumes "post env (custom_request props) = Inr response" "status_code response \<noteq> 200"
  shows "fst (call_custom_api env props w) = Inr JNull"
  using assms by (simp add: call_custom_api_def send_def)

lemma call_api_passes_None:
  "fst r = Inr JNull \<Longrightarrow>
   fst (case r of
          (Inl e, w') \<Rightarrow>
            if isinstance_Exception e
            then (Inr JNull, report ERROR (''API Error: '' @ str_exn e) w')
            else (Inl e, w')
        | (Inr v, w') \<Rightarrow> (Inr v, w')) = Inr JNull"
  for r :: "(exn + json) \<times> 's world"
  by (cases r) (simp split: sum.splits)

lemma call_api_non_200:
  assumes "post env (request_for props) = Inr response" and "status_code response \<noteq> 200"
  shows "fst (call_api env props w) = Inr JNull"
proof (cases "api_provider props")
  case GEMINI
  with assms have "fst (call_gemini_api env props w) = Inr JNull"
    by (simp add: request_for_def call_gemini_api_non_200)
  with GEMINI show ?thesis by (simp add: call_api_def call_api_passes_None)
next
  case GROQ
  with assms have "fst (call_groq_api env props w) = Inr JNull"
    by (simp add: request_for_def call_groq_api_non_200)
  with GROQ show ?thesis by (simp add: call_api_def call_api_passes_None)
next
  case OPENAI
  with assms have "fst (call_openai_api env props w) = Inr JNull"
    by (simp add: request_for_def call_openai_api_non_200)
  with OPENAI show ?thesis by (simp add: call_api_def call_api_passes_None)
next
  case ANTHROPIC
  with assms have "fst (call_anthropic_api env props w) = Inr JNull"
    by (simp add: request_for_def call_anthropic_api_non_200)
  with ANTHROPIC show ?thesis by (simp add: call_api_def call_api_passes_None)
next
  case CUSTOM
  with assms have "fst (call_custom_api env props w) = Inr JNull"
    by (simp add: request_for_def call_custom_api_non_200)
  with CUSTOM show ?thesis by (simp add: call_api_def call_api_passes_None)
qed


text \<open>
  C3. For every provider, when the reply to the provider's request has a status other
  than 200, the provider call returns \<open>None\<close>, never a text.
\<close>

theorem non_200_fails:
  assumes "post env (request_for props) = Inr response" and "status_code response \<noteq> 200"
  shows "fst (call_api env props w) = Inr JNull"
  using assms by (rule call_api_non_200)

text \<open>C3 at the Anthropic provider and a reply with status 429.\<close>

theorem non_200_fails_witness:
  "post (example_env (Inr \<lparr>status_code = 429, body_text = ''busy'',
            body_json = Inl (Exn JSONDecodeError ''Expecting value'')\<rparr>) (Inr ()))
      (request_for (example_props ANTHROPIC ''sk-test'')) =
     Inr \<lparr>status_code = 429, body_text = ''busy'',
            body_json = Inl (Exn JSONDecodeError ''Expecting value'')\<rparr> \<and>
   status_code \<lparr>status_code = 429, body_text = ''busy'',
            body_json = Inl (Exn JSONDecodeError ''Expecting value'')\<rparr> \<noteq> 200 \<and>
   fst (call_api (example_env (Inr \<lparr>status_code = 429, body_text = ''busy'',
            body_json = Inl (Exn JSONDecodeError ''Expecting value'')\<rparr>) (Inr ()))
          (example_props ANTHROPIC ''sk-test'') example_world) = Inr JNull"
proof -
  let ?r = "\<lparr>status_code = 429, body_text = ''busy'',
            body_json = Inl (Exn JSONDecodeError ''Expecting value'')\<rparr>"
  let ?env = "example_env (Inr ?r) (Inr ()) :: (string list, string) env"
  have h1: "post ?env (request_for (example_props ANTHROPIC ''sk-test'')) = Inr ?r"
    by (simp add: example_env_def)
  have h2: "status_code ?r \<noteq> 200" by simp
  from non_200_fails [OF h1 h2, of example_world] h1 h2 show ?thesis by blast
qed

lemma gemini_extract_example:
  "gemini_extract (JObj [(''candidates'', JArr [JObj [(''content'',
      JObj [(''parts'', JArr [JObj [(''text'', JStr ''```python\<newline>X\<newline>```'')]])])]])]) =
   Inr (Text ''X'')"
proof -
  have "cleaned_content ''```python\<newline>X\<newline>```'' = Inr ''X''"
    by code_simp
  then show ?thesis
    by (simp add: gemini_extract_def clean_up_def bind_exn_def)
qed

text \<open>
  C5. For the Gemini provider, a reply with status 200 and the body
  \<open>{"candidates":[{"content":{"parts":[{"text":"```python\nX\n```"}]}}]}\<close> gives the text
  \<open>X\<close>; one request has been sent and nothing is reported.
\<close>

theorem gemini_example:
  assumes "strip (api_key props) \<noteq> []"
    and "post env (gemini_request props) = Inr response"
    and "status_code response = 200"
    and "body_json response = Inr (JObj [(''candidates'', JArr [JObj [(''content'',
           JObj [(''parts'', JArr [JObj [(''text'', JStr ''```python\<newline>X\<newline>```'')]])])]])])"
  shows "call_gemini_api env props w = (Inr (JStr ''X''), sent (gemini_request props) w)"
  using assms
  by (simp add: call_gemini_api_def send_def sent_def finish_def gemini_extract_example
      bind_exn_def)

lemma openai_extract_no_choices:
  assumes "map_of kvs ''choices'' = None \<or> map_of kvs ''choices'' = Some (JArr [])"
  shows "openai_extract (JObj kvs) = Inr (Invalid ''No content generated by OpenAI'')"
  using assms by (auto simp: openai_extract_def bind_exn_def)

text \<open>
  C7. For the OpenAI provider, a reply with status 200 whose JSON object has no
  \<open>choices\<close> key, or an empty \<open>choices\<close> list, is reported as
  \<open>No content generated by OpenAI\<close>; the call returns \<open>None\<close> and raises nothing.
\<close>

theorem openai_missing_choices:
  assumes "strip (api_key props) \<noteq> []"
    and "post env (openai_request props) = Inr response"
    and "status_code response = 200"
    and "body_json response = Inr (JObj kvs)"
    and "map_of kvs ''choices'' = None \<or> map_of kvs ''choices'' = Some (JArr [])"
  shows "call_openai_api env props w =
           (Inr JNull,
            report ERROR ''No content generated by OpenAI'' (sent (openai_request props) w))"
  using assms(1-4) openai_extract_no_choices [OF assms(5)]
  by (simp add: call_openai_api_def send_def sent_def finish_def bind_exn_def)


text \<open>C5 in the concrete setting, where the network answers with that body.\<close>

theorem gemini_example_witness:
  "strip (api_key (example_props GEMINI ''key'')) \<noteq> [] \<and>
   post (example_env (Inr (ok_response (JObj [(''candidates'', JArr [JObj [(''content'',
           JObj [(''parts'', JArr [JObj [(''text'', JStr ''```python\<newline>X\<newline>```'')]])])]])])))
          (Inr ())) (gemini_request (example_props GEMINI ''key'')) =
     Inr (ok_response (JObj [(''candidates'', JArr [JObj [(''content'',
           JObj [(''parts'', JArr [JObj [(''text'', JStr ''```python\<newline>X\<newline>```'')]])])]])])) \<and>
   fst (call_gemini_api
     (example_env (Inr (ok_response (JObj [(''candidates'', JArr [JObj [(''content'',
           JObj [(''parts'', JArr [JObj [(''text'', JStr ''```python\<newline>X\<newline>```'')]])])]])])))
          (Inr ())) (example_props GEMINI ''key'') example_world) = Inr (JStr ''X'')"
proof -
  let ?body = "JObj [(''candidates'', JArr [JObj [(''content'',
           JObj [(''parts'', JArr [JObj [(''text'', JStr ''```python\<newline>X\<newline>```'')]])])]])]"
  let ?env = "example_env (Inr (ok_response ?body)) (Inr ()) :: (string list, string) env"
  let ?props = "example_props GEMINI ''key''"
  have h1: "strip (api_key ?props) \<noteq> []"
    by (simp add: example_props_def strip_def isspace_def)
  have h2: "post ?env (gemini_request ?props) = Inr (ok_response ?body)"
    by (simp add: example_env_def)
  have h3: "status_code (ok_response ?body) = 200"
    by (simp add: ok_response_def)
  have h4: "body_json (ok_response ?body) = Inr ?body"
    by (simp add: ok_response_def)
  from gemini_example [OF h1 h2 h3 h4, of example_world]
  have "fst (call_gemini_api ?env ?props example_world) = Inr (JStr ''X'')" by simp
  with h1 h2 show ?thesis by blast
qed

text \<open>C7 at a reply that has an \<open>id\<close> and no \<open>choices\<close>.\<close>

theorem openai_missing_choices_witness:
  "strip (api_key (example_props OPENAI ''key'')) \<noteq> [] \<and>
   map_of [(''id'', JStr ''chatcmpl-1'')] ''choices'' = None \<and>
   call_openai_api (example_env (Inr (ok_response (JObj [(''id'', JStr ''chatcmpl-1'')]))) (Inr ()))
      (example_props OPENAI ''key'') example_world =
     (Inr JNull,
      \<lparr>reports = [(ERROR, ''No content generated by OpenAI'')],
       http_log = [openai_request (example_props OPENAI ''key'')],
       scene = [''Camera'']\<rparr>)"
proof -
  let ?kvs = "[(''id'', JStr ''chatcmpl-1'')]"
  let ?env = "example_env (Inr (ok_response (JObj ?kvs))) (Inr ()) :: (string list, string) env"
  let ?props = "example_props OPENAI ''key''"
  have h1: "strip (api_key ?props) \<noteq> []"
    by (simp add: example_props_def strip_def isspace_def)
  have h2: "post ?env (openai_request ?props) = Inr (ok_response (JObj ?kvs))"
    by (simp add: example_env_def)
  have h3: "status_code (ok_response (JObj ?kvs)) = 200"
    by (simp add: ok_response_def)
  have h4: "body_json (ok_response (JObj ?kvs)) = Inr (JObj ?kvs)"
    by (simp add: ok_response_def)
  have h5: "map_of ?kvs ''choices'' = None" by simp
  then have h5': "map_of ?kvs ''choices'' = None \<or> map_of ?kvs ''choices'' = Some (JArr [])"
    by blast
  from openai_missing_choices [OF h1 h2 h3 h4 h5', of example_world]
  have "call_openai_api ?env ?props example_world =
     (Inr JNull,
      \<lparr>reports = [(ERROR, ''No content generated by OpenAI'')],
       http_log = [openai_request ?props], scene = [''Camera'']\<rparr>)"
    by (simp add: report_def sent_def example_world_def)
  with h1 h5 show ?thesis by blast
qed

lemma execute_script_prepare:
  "execute_script env script_code props w =
     (case bind_host (prepare env props) (\<lambda>collection.
             bind_host (exec env script_code collection) (\<lambda>_. view_layer_update env)) (scene w) of
        (Inl e, s') \<Rightarrow>
          if isinstance_Exception e then
            (Inr (), report ERROR (''Script execution error: '' @ str_exn e) (w\<lparr>scene := s'\<rparr>))
          else (Inl e, w\<lparr>scene := s'\<rparr>)
      | (Inr _, s') \<Rightarrow> (Inr (), w\<lparr>scene := s'\<rparr>))"
proof -
  have "bind_host (if auto_clear props then clear_scene env else (\<lambda>s. (Inr (), s))) (\<lambda>_.
           bind_host (collections_new env (''AI_Generated_'' @ take 20 (prompt props))) (\<lambda>collection.
           bind_host (children_link env collection) (\<lambda>_.
           bind_host (exec env script_code collection) (\<lambda>_.
           view_layer_update env)))) (scene w) =
        bind_host (prepare env props) (\<lambda>collection.
             bind_host (exec env script_code collection) (\<lambda>_. view_layer_update env)) (scene w)"
    unfolding prepare_def bind_host_def
    by (simp split: prod.splits sum.splits)
  then show ?thesis
    unfolding execute_script_def by (simp only:)
qed

lemma execute_script_raise:
  assumes "prepare env props (scene w) = (Inr collection, s)"
    and "exec env script_code collection s = (Inl e, s')"
    and "isinstance_Exception e"
  shows "execute_script env script_code props w =
           (Inr (), report ERROR (''Script execution error: '' @ str_exn e) (w\<lparr>scene := s'\<rparr>))"
  using assms by (simp add: execute_script_prepare bind_host_def)

lemma execute_script_escape:
  assumes "prepare env props (scene w) = (Inr collection, s)"
    and "exec env script_code collection s = (Inl e, s')"
    and "\<not> isinstance_Exception e"
  shows "execute_script env script_code props w = (Inl e, w\<lparr>scene := s'\<rparr>)"
  using assms by (simp add: execute_script_prepare bind_host_def)

lemma prepare_example:
  "prepare (example_env answer outcome) (example_props p key) [''Camera''] =
     (Inr ''AI_Generated_Create a simple cube'', [''AI_Generated_Create a simple cube''])"
  by (simp add: prepare_def bind_host_def clear_scene_def example_env_def example_props_def)

text \<open>
  C4, as stated, fails for a script that raises outside \<open>Exception\<close>. A script that adds
  a cube and then raises \<open>SystemExit(3)\<close> is not caught by \<open>except Exception\<close>: the
  exception leaves \<open>execute_script\<close> and nothing is reported. The cube stays.
\<close>

theorem script_error_not_caught_counterexample:
  "execute_script (example_env (Inr (ok_response JNull)) (Inl (Exn NonException ''3'')))
      ''make_cube(); raise SystemExit(3)'' (example_props CUSTOM []) example_world =
     (Inl (Exn NonException ''3''),
      \<lparr>reports = [], http_log = [],
       scene = [''AI_Generated_Create a simple cube'', ''Cube'']\<rparr>)"
proof -
  let ?e = "Exn NonException ''3''"
  let ?env = "example_env (Inr (ok_response JNull)) (Inl ?e) :: (string list, string) env"
  let ?c = "''AI_Generated_Create a simple cube''"
  have h1: "prepare ?env (example_props CUSTOM []) (scene example_world) = (Inr ?c, [?c])"
    by (simp add: example_world_def prepare_example)
  have h2: "exec ?env ''make_cube(); raise SystemExit(3)'' ?c [?c] = (Inl ?e, [?c, ''Cube''])"
    by (simp add: example_env_def)
  have h3: "\<not> isinstance_Exception ?e" by simp
  from execute_script_escape [OF h1 h2 h3] show ?thesis
    by (simp add: example_world_def)
qed

text \<open>
  C4, amended. When the host calls before \<open>exec\<close> succeed and the script raises
  partway, leaving the scene \<open>s'\<close>, the scene after \<open>execute_script\<close> is \<open>s'\<close>: what the
  script had made before it raised stays, whatever was raised. When what was raised is
  an instance of \<open>Exception\<close>, \<open>execute_script\<close> raises nothing and reports
  \<open>Script execution error: ...\<close>; otherwise the exception leaves \<open>execute_script\<close>
  and nothing is reported.
\<close>

theorem script_error_caught_no_rollback:
  assumes "prepare env props (scene w) = (Inr collection, s)"
    and "exec env script_code collection s = (Inl e, s')"
  shows "scene (snd (execute_script env script_code props w)) = s' \<and>
         (isinstance_Exception e \<longrightarrow>
            execute_script env script_code props w =
              (Inr (), report ERROR (''Script execution error: '' @ str_exn e) (w\<lparr>scene := s'\<rparr>))) \<and>
         (\<not> isinstance_Exception e \<longrightarrow>
            execute_script env script_code props w = (Inl e, w\<lparr>scene := s'\<rparr>))"
proof (cases "isinstance_Exception e")
  case True
  with execute_script_raise [OF assms True] show ?thesis by simp
next
  case False
  with execute_script_escape [OF assms False] show ?thesis by simp
qed

text \<open>C4, amended, for a script that adds a cube and then raises: the cube is in the scene.\<close>

theorem script_error_caught_no_rollback_witness:
  "prepare (example_env (Inr (ok_response JNull)) (Inl (Exn RuntimeError ''boom'')))
      (example_props CUSTOM []) (scene example_world) =
     (Inr ''AI_Generated_Create a simple cube'', [''AI_Generated_Create a simple cube'']) \<and>
   exec (example_env (Inr (ok_response JNull)) (Inl (Exn RuntimeError ''boom'')))
      ''make_cube(); fail()'' ''AI_Generated_Create a simple cube''
      [''AI_Generated_Create a simple cube''] =
     (Inl (Exn RuntimeError ''boom''), [''AI_Generated_Create a simple cube'', ''Cube'']) \<and>
   isinstance_Exception (Exn RuntimeError ''boom'') \<and>
   execute_script (example_env (Inr (ok_response JNull)) (Inl (Exn RuntimeError ''boom'')))
      ''make_cube(); fail()'' (example_props CUSTOM []) example_world =
     (Inr (),
      \<lparr>reports = [(ERROR, ''Script execution error: boom'')], http_log = [],
       scene = [''AI_Generated_Create a simple cube'', ''Cube'']\<rparr>) \<and>
   scene (snd (execute_script (example_env (Inr (ok_response JNull)) (Inl (Exn RuntimeError ''boom'')))
      ''make_cube(); fail()'' (example_props CUSTOM []) example_world)) =
     [''AI_Generated_Create a simple cube'', ''Cube'']"
proof -
  let ?e = "Exn RuntimeError ''boom''"
  let ?env = "example_env (Inr (ok_response JNull)) (Inl ?e) :: (string list, string) env"
  let ?props = "example_props CUSTOM []"
  let ?c = "''AI_Generated_Create a simple cube''"
  have h1: "prepare ?env ?props (scene example_world) = (Inr ?c, [?c])"
    by (simp add: example_world_def prepare_example)
  have h2: "exec ?env ''make_cube(); fail()'' ?c [?c] = (Inl ?e, [?c, ''Cube''])"
    by (simp add: example_env_def)
  have h3: "isinstance_Exception ?e" by simp
  from script_error_caught_no_rollback [OF h1 h2] h3
  have r: "execute_script ?env ''make_cube(); fail()'' ?props example_world =
     (Inr (),
      \<lparr>reports = [(ERROR, ''Script execution error: boom'')], http_log = [],
       scene = [?c, ''Cube'']\<rparr>)"
    by (simp add: report_def example_world_def)
  then have "scene (snd (execute_script ?env ''make_cube(); fail()'' ?props example_world)) =
      [?c, ''Cube'']"
    by simp
  with h1 h2 h3 r show ?thesis by blast
qed

lemma usable_script_text:
  assumes "strip script_code \<noteq> []"
  shows "usable_script (JStr script_code) = Inr (Some script_code)"
proof -
  have "script_code \<noteq> []" using assms by (auto simp: strip_def)
  with assms show ?thesis by (simp add: usable_script_def bind_exn_def)
qed

lemma call_api_custom:
  assumes "api_provider props = CUSTOM"
    and "post env (custom_request props) = Inr response"
    and "status_code response = 200"
    and "body_json response = Inr (JObj kvs)"
  shows "call_api env props w =
           (Inr (case map_of kvs ''script'' of None \<Rightarrow> JStr [] | Some v \<Rightarrow> v),
            sent (custom_request props) w)"
  using assms
  by (simp add: call_api_def call_custom_api_def send_def sent_def bind_exn_def)

lemma execute_escape:
  assumes "strip (prompt props) \<noteq> []"
    and "call_api env props (report INFO (''Generating model for: '' @ prompt props) w) =
           (Inr (JStr script_code), w')"
    and "strip script_code \<noteq> []"
    and "prepare env props (scene w') = (Inr collection, s)"
    and "exec env script_code collection s = (Inl e, s')"
    and "\<not> isinstance_Exception e"
  shows "execute env props w = (Inl e, w'\<lparr>scene := s'\<rparr>)"
  using assms(1,2,6) usable_script_text [OF assms(3)] execute_script_escape [OF assms(4-6)]
  by (simp add: execute_def)

text \<open>
  C9, as stated, fails for a script that raises outside \<open>Exception\<close>. With the custom
  provider returning a script that adds a cube and then raises \<open>SystemExit(3)\<close>, the
  exception leaves \<open>execute\<close>: no success message is reported and FINISHED is not
  returned.
\<close>

theorem script_error_propagates_counterexample:
  "execute (example_env (Inr (ok_response
              (JObj [(''script'', JStr ''make_cube(); raise SystemExit(3)'')])))
              (Inl (Exn NonException ''3'')))
      (example_props CUSTOM []) example_world =
     (Inl (Exn NonException ''3''),
      \<lparr>reports = [(INFO, ''Generating model for: Create a simple cube'')],
       http_log = [custom_request (example_props CUSTOM [])],
       scene = [''AI_Generated_Create a simple cube'', ''Cube'']\<rparr>)"
proof -
  let ?e = "Exn NonException ''3''"
  let ?code = "''make_cube(); raise SystemExit(3)''"
  let ?answer = "ok_response (JObj [(''script'', JStr ?code)])"
  let ?env = "example_env (Inr ?answer) (Inl ?e) :: (string list, string) env"
  let ?props = "example_props CUSTOM []"
  let ?c = "''AI_Generated_Create a simple cube''"
  let ?w = "sent (custom_request ?props)
              (report INFO (''Generating model for: '' @ prompt ?props) example_world)"
  have h1: "strip (prompt ?props) \<noteq> []"
    by (simp add: example_props_def strip_def isspace_def)
  have "call_api ?env ?props (report INFO (''Generating model for: '' @ prompt ?props) example_world) =
      (Inr (case map_of [(''script'', JStr ?code)] ''script'' of None \<Rightarrow> JStr [] | Some v \<Rightarrow> v), ?w)"
    by (rule call_api_custom [where response = ?answer])
       (simp_all add: example_props_def example_env_def ok_response_def)
  then have h2: "call_api ?env ?props
      (report INFO (''Generating model for: '' @ prompt ?props) example_world) = (Inr (JStr ?code), ?w)"
    by simp
  have h3: "strip ?code \<noteq> []"
    by (simp add: strip_def isspace_def)
  have h4: "prepare ?env ?props (scene ?w) = (Inr ?c, [?c])"
    by (simp add: sent_def example_world_def prepare_example)
  have h5: "exec ?env ?code ?c [?c] = (Inl ?e, [?c, ''Cube''])"
    by (simp add: example_env_def)
  have h6: "\<not> isinstance_Exception ?e" by simp
  from execute_escape [OF h1 h2 h3 h4 h5 h6] show ?thesis
    by (simp add: report_def sent_def example_world_def example_props_def)
qed

text \<open>
  C9, amended. When the provider call returns a usable script and the script raises an
  instance of \<open>Exception\<close> during its execution, the operator reports the execution
  error, then \<open>Model generated successfully!\<close>, and returns FINISHED.
\<close>

theorem script_error_still_success:
  assumes "strip (prompt props) \<noteq> []"
    and "call_api env props (report INFO (''Generating model for: '' @ prompt props) w) =
           (Inr (JStr script_code), w')"
    and "strip script_code \<noteq> []"
    and "prepare env props (scene w') = (Inr collection, s)"
    and "exec env script_code collection s = (Inl e, s')"
    and "isinstance_Exception e"
  shows "execute env props w =
           (Inr FINISHED,
            report INFO ''Model generated successfully!''
              (report ERROR (''Script execution error: '' @ str_exn e) (w'\<lparr>scene := s'\<rparr>)))"
  using assms(1,2) usable_script_text [OF assms(3)] execute_script_raise [OF assms(4-6)]
  by (simp add: execute_def)

text \<open>C9, amended, for the custom provider and a script that raises after adding a cube.\<close>

theorem script_error_still_success_witness:
  "strip (prompt (example_props CUSTOM [])) \<noteq> [] \<and>
   strip ''make_cube(); fail()'' \<noteq> [] \<and>
   isinstance_Exception (Exn RuntimeError ''boom'') \<and>
   execute (example_env (Inr (ok_response (JObj [(''script'', JStr ''make_cube(); fail()'')])))
              (Inl (Exn RuntimeError ''boom'')))
      (example_props CUSTOM []) example_world =
     (Inr FINISHED,
      \<lparr>reports = [(INFO, ''Generating model for: Create a simple cube''),
                  (ERROR, ''Script execution error: boom''),
                  (INFO, ''Model generated successfully!'')],
       http_log = [custom_request (example_props CUSTOM [])],
       scene = [''AI_Generated_Create a simple cube'', ''Cube'']\<rparr>)"
proof -
  let ?e = "Exn RuntimeError ''boom''"
  let ?code = "''make_cube(); fail()''"
  let ?answer = "ok_response (JObj [(''script'', JStr ?code)])"
  let ?env = "example_env (Inr ?answer) (Inl ?e) :: (string list, string) env"
  let ?props = "example_props CUSTOM []"
  let ?c = "''AI_Generated_Create a simple cube''"
  let ?w = "sent (custom_request ?props)
              (report INFO (''Generating model for: '' @ prompt ?props) example_world)"
  have h1: "strip (prompt ?props) \<noteq> []"
    by (simp add: example_props_def strip_def isspace_def)
  have "call_api ?env ?props (report INFO (''Generating model for: '' @ prompt ?props) example_world) =
      (Inr (case map_of [(''script'', JStr ?code)] ''script'' of None \<Rightarrow> JStr [] | Some v \<Rightarrow> v), ?w)"
    by (rule call_api_custom [where response = ?answer])
       (simp_all add: example_props_def example_env_def ok_response_def)
  then have h2: "call_api ?env ?props
      (report INFO (''Generating model for: '' @ prompt ?props) example_world) = (Inr (JStr ?code), ?w)"
    by simp
  have h3: "strip ?code \<noteq> []"
    by (simp add: strip_def isspace_def)
  have h4: "prepare ?env ?props (scene ?w) = (Inr ?c, [?c])"
    by (simp add: sent_def example_world_def prepare_example)
  have h5: "exec ?env ?code ?c [?c] = (Inl ?e, [?c, ''Cube''])"
    by (simp add: example_env_def)
  have h6: "isinstance_Exception ?e" by simp
  from script_error_still_success [OF h1 h2 h3 h4 h5 h6]
  have "execute ?env ?props example_world =
     (Inr FINISHED,
      \<lparr>reports = [(INFO, ''Generating model for: Create a simple cube''),
                  (ERROR, ''Script execution error: boom''),
                  (INFO, ''Model generated successfully!'')],
       http_log = [custom_request ?props],
       scene = [?c, ''Cube'']\<rparr>)"
    by (simp add: report_def sent_def example_world_def example_props_def)
  with h1 h3 h6 show ?thesis by blast
qed

lemma execute_scene_unusable:
  assumes "\<And>script. fst (call_api env props (report INFO (''Generating model for: '' @ prompt props) w))
             = Inr (JStr script) \<Longrightarrow> strip script = []"
  shows "scene (snd (execute env props w)) = scene w"
proof (cases "strip (prompt props) = []")
  case True
  then show ?thesis by (simp add: execute_def)
next
  case False
  let ?w1 = "report INFO (''Generating model for: '' @ prompt props) w"
  obtain r w' where call: "call_api env props ?w1 = (r, w')"
    by (cases "call_api env props ?w1")
  have sc: "scene w' = scene w"
    using call_api_scene [of env props ?w1] call by simp
  show ?thesis
  proof (cases r)
    case (Inl e)
    with False call sc show ?thesis by (simp add: execute_def)
  next
    case (Inr v)
    have "usable_script v = Inr None \<or> (\<exists>e. usable_script v = Inl e)"
    proof (cases v)
      case (JStr script)
      with assms call Inr have "strip script = []" by simp
      with JStr show ?thesis by (simp add: usable_script_blank)
    qed (simp_all add: usable_script_def bind_exn_def)
    with False call sc Inr show ?thesis by (auto simp: execute_def)
  qed
qed

text \<open>
  C8. When the provider call raises, returns \<open>None\<close>, or returns a text of whitespace
  only, the generate action leaves the scene as it was, whatever the host calls would
  do and whether or not \<open>auto_clear\<close> is set.
\<close>

theorem failed_call_leaves_scene:
  assumes "fst (call_api env props (report INFO (''Generating model for: '' @ prompt props) w)) = r"
    and "(\<exists>e. r = Inl e) \<or> r = Inr JNull \<or> (\<exists>script. r = Inr (JStr script) \<and> list_all isspace script)"
  shows "scene (snd (execute env props w)) = scene w"
proof (rule execute_scene_unusable)
  fix script
  assume "fst (call_api env props (report INFO (''Generating model for: '' @ prompt props) w))
            = Inr (JStr script)"
  with assms have "list_all isspace script" by auto
  then show "strip script = []" by (rule strip_Nil_list_all)
qed

text \<open>
  C8 at a reply with status 429 and at a script of two spaces, with \<open>auto_clear\<close> set
  and a host whose clearing would empty the scene.
\<close>

theorem failed_call_leaves_scene_witness:
  "fst (call_api (example_env (Inr \<lparr>status_code = 429, body_text = [], body_json = Inr JNull\<rparr>) (Inr ()))
          (example_props ANTHROPIC ''key'')
          (report INFO (''Generating model for: '' @ prompt (example_props ANTHROPIC ''key''))
             example_world)) = Inr JNull \<and>
   scene (snd (execute (example_env (Inr \<lparr>status_code = 429, body_text = [], body_json = Inr JNull\<rparr>) (Inr ()))
          (example_props ANTHROPIC ''key'') example_world)) = [''Camera''] \<and>
   fst (call_api (example_env (Inr (ok_response (JObj [(''script'', JStr ''  '')]))) (Inr ()))
          (example_props CUSTOM [])
          (report INFO (''Generating model for: '' @ prompt (example_props CUSTOM []))
             example_world)) = Inr (JStr ''  '') \<and>
   list_all isspace ''  '' \<and>
   scene (snd (execute (example_env (Inr (ok_response (JObj [(''script'', JStr ''  '')]))) (Inr ()))
          (example_props CUSTOM []) example_world)) = [''Camera'']"
proof -
  let ?r1 = "\<lparr>status_code = 429, body_text = [], body_json = Inr JNull\<rparr>"
  let ?env1 = "example_env (Inr ?r1) (Inr ()) :: (string list, string) env"
  let ?props1 = "example_props ANTHROPIC ''key''"
  let ?w1 = "report INFO (''Generating model for: '' @ prompt ?props1) example_world"
  let ?r2 = "ok_response (JObj [(''script'', JStr ''  '')])"
  let ?env2 = "example_env (Inr ?r2) (Inr ()) :: (string list, string) env"
  let ?props2 = "example_props CUSTOM []"
  let ?w2 = "report INFO (''Generating model for: '' @ prompt ?props2) example_world"
  have a1: "fst (call_api ?env1 ?props1 ?w1) = Inr JNull"
    by (rule call_api_non_200 [where response = ?r1]) (simp_all add: example_env_def)
  then have a2: "(\<exists>e. Inr JNull = (Inl e :: exn + json)) \<or> (Inr JNull :: exn + json) = Inr JNull \<or>
      (\<exists>script. (Inr JNull :: exn + json) = Inr (JStr script) \<and> list_all isspace script)"
    by blast
  from failed_call_leaves_scene [OF a1 a2]
  have a3: "scene (snd (execute ?env1 ?props1 example_world)) = [''Camera'']"
    by (simp add: example_world_def)
  have "call_api ?env2 ?props2 ?w2 =
      (Inr (case map_of [(''script'', JStr ''  '')] ''script'' of None \<Rightarrow> JStr [] | Some v \<Rightarrow> v),
       sent (custom_request ?props2) ?w2)"
    by (rule call_api_custom [where response = ?r2])
       (simp_all add: example_props_def example_env_def ok_response_def)
  then have b1: "fst (call_api ?env2 ?props2 ?w2) = Inr (JStr ''  '')"
    by simp
  have b2: "list_all isspace ''  ''" by (simp add: isspace_def)
  then have b3: "(\<exists>e. Inr (JStr ''  '') = (Inl e :: exn + json)) \<or>
      (Inr (JStr ''  '') :: exn + json) = Inr JNull \<or>
      (\<exists>script. (Inr (JStr ''  '') :: exn + json) = Inr (JStr script) \<and> list_all isspace script)"
    by blast
  from failed_call_leaves_scene [OF b1 b3]
  have b4: "scene (snd (execute ?env2 ?props2 example_world)) = [''Camera'']"
    by (simp add: example_world_def)
  from a1 a3 b1 b2 b4 show ?thesis by blast
qed

lemma extract_no_answers:
  assumes "map_of kvs (top_key p) = None \<or> map_of kvs (top_key p) = Some (JArr [])"
  shows "p = GEMINI \<Longrightarrow> gemini_extract (JObj kvs) = Inr (Invalid ''No content generated by Gemini'')"
    and "p = GROQ \<Longrightarrow> groq_extract (JObj kvs) = Inr (Invalid ''No content generated by Groq'')"
    and "p = OPENAI \<Longrightarrow> openai_extract (JObj kvs) = Inr (Invalid ''No content generated by OpenAI'')"
    and "p = ANTHROPIC \<Longrightarrow>
           anthropic_extract (JObj kvs) = Inr (Invalid ''No content generated by Anthropic'')"
  using assms
  by (auto simp: gemini_extract_def groq_extract_def openai_extract_def anthropic_extract_def
      bind_exn_def)

lemma extract_no_nested_key:
  assumes "map_of kvs (top_key p) = Some (JArr (JObj answer # rest))"
    and "map_of answer (nested_key p) = None"
  shows "p = GEMINI \<Longrightarrow>
           gemini_extract (JObj kvs) = Inr (Invalid ''Invalid response structure from Gemini'')"
    and "p = GROQ \<Longrightarrow>
           groq_extract (JObj kvs) = Inr (Invalid ''Invalid response structure from Groq'')"
    and "p = OPENAI \<Longrightarrow>
           openai_extract (JObj kvs) = Inr (Invalid ''Invalid response structure from OpenAI'')"
    and "p = ANTHROPIC \<Longrightarrow>
           anthropic_extract (JObj kvs) = Inr (Invalid ''Invalid response structure from Anthropic'')"
  using assms
  by (auto simp: gemini_extract_def groq_extract_def openai_extract_def anthropic_extract_def
      bind_exn_def)

lemma call_api_invalid:
  assumes "api_provider props \<noteq> CUSTOM"
    and "strip (api_key props) \<noteq> []"
    and "post env (request_for props) = Inr response"
    and "status_code response = 200"
    and "body_json response = Inr v"
    and "api_provider props = GEMINI \<Longrightarrow> gemini_extract v = Inr (Invalid m)"
    and "api_provider props = GROQ \<Longrightarrow> groq_extract v = Inr (Invalid m)"
    and "api_provider props = OPENAI \<Longrightarrow> openai_extract v = Inr (Invalid m)"
    and "api_provider props = ANTHROPIC \<Longrightarrow> anthropic_extract v = Inr (Invalid m)"
  shows "call_api env props w = (Inr JNull, report ERROR m (sent (request_for props) w))"
  using assms
  by (cases "api_provider props")
     (simp_all add: call_api_def call_gemini_api_def call_groq_api_def call_openai_api_def
        call_anthropic_api_def request_for_def send_def sent_def finish_def bind_exn_def)

lemma call_api_no_answers:
  assumes "api_provider props \<noteq> CUSTOM"
    and "strip (api_key props) \<noteq> []"
    and "post env (request_for props) = Inr response"
    and "status_code response = 200"
    and "body_json response = Inr (JObj kvs)"
    and "map_of kvs (top_key (api_provider props)) = None \<or>
         map_of kvs (top_key (api_provider props)) = Some (JArr [])"
  shows "call_api env props w =
           (Inr JNull,
            report ERROR (''No content generated by '' @ provider_label (api_provider props))
              (sent (request_for props) w))"
proof (rule call_api_invalid [OF assms(1-5)])
  assume "api_provider props = GEMINI"
  then show "gemini_extract (JObj kvs) =
      Inr (Invalid (''No content generated by '' @ provider_label (api_provider props)))"
    using extract_no_answers(1) [OF assms(6)] by simp
next
  assume "api_provider props = GROQ"
  then show "groq_extract (JObj kvs) =
      Inr (Invalid (''No content generated by '' @ provider_label (api_provider props)))"
    using extract_no_answers(2) [OF assms(6)] by simp
next
  assume "api_provider props = OPENAI"
  then show "openai_extract (JObj kvs) =
      Inr (Invalid (''No content generated by '' @ provider_label (api_provider props)))"
    using extract_no_answers(3) [OF assms(6)] by simp
next
  assume "api_provider props = ANTHROPIC"
  then show "anthropic_extract (JObj kvs) =
      Inr (Invalid (''No content generated by '' @ provider_label (api_provider props)))"
    using extract_no_answers(4) [OF assms(6)] by simp
qed

lemma call_api_no_nested_key:
  assumes "api_provider props \<noteq> CUSTOM"
    and "strip (api_key props) \<noteq> []"
    and "post env (request_for props) = Inr response"
    and "status_code response = 200"
    and "body_json response = Inr (JObj kvs)"
    and "map_of kvs (top_key (api_provider props)) = Some (JArr (JObj answer # rest))"
    and "map_of answer (nested_key (api_provider props)) = None"
  shows "call_api env props w =
           (Inr JNull,
            report ERROR (''Invalid response structure from '' @ provider_label (api_provider props))
              (sent (request_for props) w))"
proof (rule call_api_invalid [OF assms(1-5)])
  assume "api_provider props = GEMINI"
  then show "gemini_extract (JObj kvs) =
      Inr (Invalid (''Invalid response structure from '' @ provider_label (api_provider props)))"
    using extract_no_nested_key(1) [OF assms(6,7)] by simp
next
  assume "api_provider props = GROQ"
  then show "groq_extract (JObj kvs) =
      Inr (Invalid (''Invalid response structure from '' @ provider_label (api_provider props)))"
    using extract_no_nested_key(2) [OF assms(6,7)] by simp
next
  assume "api_provider props = OPENAI"
  then show "openai_extract (JObj kvs) =
      Inr (Invalid (''Invalid response structure from '' @ provider_label (api_provider props)))"
    using extract_no_nested_key(3) [OF assms(6,7)] by simp
next
  assume "api_provider props = ANTHROPIC"
  then show "anthropic_extract (JObj kvs) =
      Inr (Invalid (''Invalid response structure from '' @ provider_label (api_provider props)))"
    using extract_no_nested_key(4) [OF assms(6,7)] by simp
qed

lemma execute_custom_no_script:
  assumes "api_provider props = CUSTOM"
    and "post env (custom_request props) = Inr response"
    and "status_code response = 200"
    and "body_json response = Inr (JObj kvs)"
    and "map_of kvs ''script'' = None"
    and "strip (prompt props) \<noteq> []"
  shows "execute env props w =
           (Inr CANCELLED,
            report ERROR ''Failed to get valid script from API''
              (sent (custom_request props)
                 (report INFO (''Generating model for: '' @ prompt props) w)))"
  using assms(5,6) call_api_custom [OF assms(1-4)]
  by (simp add: execute_def usable_script_def)

text \<open>
  C6, as stated, fails for the custom provider. A reply \<open>{}\<close>, without the \<open>script\<close>
  key, leads to the single error message \<open>Failed to get valid script from API\<close>, and
  the action ends exactly as for the well-formed reply \<open>{"script": ""}\<close>: no message
  tells the unexpected shape apart.
\<close>

theorem custom_shape_error_counterexample:
  "execute (example_env (Inr (ok_response (JObj []))) (Inr ()))
      (example_props CUSTOM []) example_world =
     (Inr CANCELLED,
      \<lparr>reports = [(INFO, ''Generating model for: Create a simple cube''),
                  (ERROR, ''Failed to get valid script from API'')],
       http_log = [custom_request (example_props CUSTOM [])],
       scene = [''Camera'']\<rparr>) \<and>
   execute (example_env (Inr (ok_response (JObj [(''script'', JStr [])]))) (Inr ()))
      (example_props CUSTOM []) example_world =
   execute (example_env (Inr (ok_response (JObj []))) (Inr ()))
      (example_props CUSTOM []) example_world"
proof -
  let ?props = "example_props CUSTOM []"
  let ?w = "report INFO (''Generating model for: '' @ prompt ?props) example_world"
  have p: "strip (prompt ?props) \<noteq> []"
    by (simp add: example_props_def strip_def isspace_def)
  have a: "call_api (example_env (Inr (ok_response (JObj kvs))) (Inr ())) ?props ?w =
      (Inr (case map_of kvs ''script'' of None \<Rightarrow> JStr [] | Some v \<Rightarrow> v),
       sent (custom_request ?props) ?w)" for kvs
    by (rule call_api_custom [where response = "ok_response (JObj kvs)"])
       (simp_all add: example_props_def example_env_def ok_response_def)
  have b: "execute (example_env (Inr (ok_response (JObj kvs))) (Inr ())) ?props example_world =
      (Inr CANCELLED,
       \<lparr>reports = [(INFO, ''Generating model for: Create a simple cube''),
                   (ERROR, ''Failed to get valid script from API'')],
        http_log = [custom_request ?props],
        scene = [''Camera'']\<rparr>)"
    if "(case map_of kvs ''script'' of None \<Rightarrow> JStr [] | Some v \<Rightarrow> v) = JStr []" for kvs
    using p a [of kvs] that
    by (simp add: execute_def usable_script_def report_def sent_def example_world_def
        example_props_def)
  have "execute (example_env (Inr (ok_response (JObj []))) (Inr ())) ?props example_world =
      (Inr CANCELLED,
       \<lparr>reports = [(INFO, ''Generating model for: Create a simple cube''),
                   (ERROR, ''Failed to get valid script from API'')],
        http_log = [custom_request ?props],
        scene = [''Camera'']\<rparr>)"
    by (rule b) simp
  moreover have "execute (example_env (Inr (ok_response (JObj [(''script'', JStr [])]))) (Inr ()))
      ?props example_world =
      (Inr CANCELLED,
       \<lparr>reports = [(INFO, ''Generating model for: Create a simple cube''),
                   (ERROR, ''Failed to get valid script from API'')],
        http_log = [custom_request ?props],
        scene = [''Camera'']\<rparr>)"
    by (rule b) simp
  ultimately show ?thesis by simp
qed

lemma extract_no_inner_key:
  assumes "map_of kvs (top_key p) = Some (JArr (JObj answer # rest))"
    and "map_of answer (nested_key p) = Some (JObj inner)"
    and "inner_key p = Some k"
    and "map_of inner k = None"
  shows "p = GEMINI \<Longrightarrow>
           gemini_extract (JObj kvs) = Inr (Invalid ''Invalid response structure from Gemini'')"
    and "p = GROQ \<Longrightarrow>
           groq_extract (JObj kvs) = Inr (Invalid ''Invalid response structure from Groq'')"
    and "p = OPENAI \<Longrightarrow>
           openai_extract (JObj kvs) = Inr (Invalid ''Invalid response structure from OpenAI'')"
  using assms
  by (auto simp: gemini_extract_def groq_extract_def openai_extract_def bind_exn_def)

lemma call_api_no_inner_key:
  assumes "api_provider props \<noteq> CUSTOM"
    and "strip (api_key props) \<noteq> []"
    and "post env (request_for props) = Inr response"
    and "status_code response = 200"
    and "body_json response = Inr (JObj kvs)"
    and "map_of kvs (top_key (api_provider props)) = Some (JArr (JObj answer # rest))"
    and "map_of answer (nested_key (api_provider props)) = Some (JObj inner)"
    and "inner_key (api_provider props) = Some k"
    and "map_of inner k = None"
  shows "call_api env props w =
           (Inr JNull,
            report ERROR (''Invalid response structure from '' @ provider_label (api_provider props))
              (sent (request_for props) w))"
proof (rule call_api_invalid [OF assms(1-5)])
  assume "api_provider props = GEMINI"
  then show "gemini_extract (JObj kvs) =
      Inr (Invalid (''Invalid response structure from '' @ provider_label (api_provider props)))"
    using extract_no_inner_key(1) [OF assms(6-9)] by simp
next
  assume "api_provider props = GROQ"
  then show "groq_extract (JObj kvs) =
      Inr (Invalid (''Invalid response structure from '' @ provider_label (api_provider props)))"
    using extract_no_inner_key(2) [OF assms(6-9)] by simp
next
  assume "api_provider props = OPENAI"
  then show "openai_extract (JObj kvs) =
      Inr (Invalid (''Invalid response structure from '' @ provider_label (api_provider props)))"
    using extract_no_inner_key(3) [OF assms(6-9)] by simp
next
  assume "api_provider props = ANTHROPIC"
  with assms(8) show "anthropic_extract (JObj kvs) =
      Inr (Invalid (''Invalid response structure from '' @ provider_label (api_provider props)))"
    by simp
qed

lemma call_api_gemini_no_text:
  assumes "api_provider props = GEMINI"
    and "strip (api_key props) \<noteq> []"
    and "post env (request_for props) = Inr response"
    and "status_code response = 200"
    and "body_json response = Inr (JObj kvs)"
    and "map_of kvs ''candidates'' = Some (JArr (JObj answer # rest))"
    and "map_of answer ''content'' = Some (JObj inner)"
    and "map_of inner ''parts'' = Some (JArr (JObj part # parts))"
    and "map_of part ''text'' = None"
  shows "call_api env props w =
           (Inr JNull,
            report ERROR (''API Error: '' @ quoted ''text'') (sent (request_for props) w))"
proof -
  have "gemini_extract (JObj kvs) = Inl (Exn KeyError (quoted ''text''))"
    using assms(6-9) by (simp add: gemini_extract_def bind_exn_def)
  with assms(1-5) show ?thesis
    by (simp add: call_api_def call_gemini_api_def request_for_def send_def sent_def
        finish_def bind_exn_def)
qed

text \<open>
  C6, amended. For a reply with status 200 whose body is a JSON object: for GEMINI,
  GROQ, OPENAI and ANTHROPIC with a key, a missing or empty list of answers is reported
  as \<open>No content generated by ...\<close>, a first answer without the key looked for in it,
  or without the key one level further down, as \<open>Invalid response structure from ...\<close>,
  and for GEMINI a first part without \<open>text\<close> as \<open>API Error: 'text'\<close>; for CUSTOM a
  missing \<open>script\<close> key gives the empty script and only the general message
  \<open>Failed to get valid script from API\<close>. In each case \<open>None\<close> or the empty script is
  returned and exactly one request has been sent.
\<close>

theorem shape_error_reported:
  assumes "post env (request_for props) = Inr response"
    and "status_code response = 200"
    and "body_json response = Inr (JObj kvs)"
  shows
    "(api_provider props \<noteq> CUSTOM \<and> strip (api_key props) \<noteq> [] \<and>
        (map_of kvs (top_key (api_provider props)) = None \<or>
         map_of kvs (top_key (api_provider props)) = Some (JArr [])) \<longrightarrow>
      call_api env props w =
        (Inr JNull,
         report ERROR (''No content generated by '' @ provider_label (api_provider props))
           (sent (request_for props) w))) \<and>
     (api_provider props \<noteq> CUSTOM \<and> strip (api_key props) \<noteq> [] \<and>
        (\<exists>answer rest.
           map_of kvs (top_key (api_provider props)) = Some (JArr (JObj answer # rest)) \<and>
           map_of answer (nested_key (api_provider props)) = None) \<longrightarrow>
      call_api env props w =
        (Inr JNull,
         report ERROR (''Invalid response structure from '' @ provider_label (api_provider props))
           (sent (request_for props) w))) \<and>
     (api_provider props \<noteq> CUSTOM \<and> strip (api_key props) \<noteq> [] \<and>
        (\<exists>answer rest inner k.
           map_of kvs (top_key (api_provider props)) = Some (JArr (JObj answer # rest)) \<and>
           map_of answer (nested_key (api_provider props)) = Some (JObj inner) \<and>
           inner_key (api_provider props) = Some k \<and> map_of inner k = None) \<longrightarrow>
      call_api env props w =
        (Inr JNull,
         report ERROR (''Invalid response structure from '' @ provider_label (api_provider props))
           (sent (request_for props) w))) \<and>
     (api_provider props = GEMINI \<and> strip (api_key props) \<noteq> [] \<and>
        (\<exists>answer rest inner part parts.
           map_of kvs ''candidates'' = Some (JArr (JObj answer # rest)) \<and>
           map_of answer ''content'' = Some (JObj inner) \<and>
           map_of inner ''parts'' = Some (JArr (JObj part # parts)) \<and>
           map_of part ''text'' = None) \<longrightarrow>
      call_api env props w =
        (Inr JNull,
         report ERROR (''API Error: '' @ quoted ''text'') (sent (request_for props) w))) \<and>
     (api_provider props = CUSTOM \<and> map_of kvs ''script'' = None \<and> strip (prompt props) \<noteq> [] \<longrightarrow>
      call_api env props w = (Inr (JStr []), sent (request_for props) w) \<and>
      execute env props w =
        (Inr CANCELLED,
         report ERROR ''Failed to get valid script from API''
           (sent (request_for props)
              (report INFO (''Generating model for: '' @ prompt props) w))))"
proof (intro conjI impI)
  assume "api_provider props \<noteq> CUSTOM \<and> strip (api_key props) \<noteq> [] \<and>
        (map_of kvs (top_key (api_provider props)) = None \<or>
         map_of kvs (top_key (api_provider props)) = Some (JArr []))"
  then show "call_api env props w =
        (Inr JNull,
         report ERROR (''No content generated by '' @ provider_label (api_provider props))
           (sent (request_for props) w))"
    using call_api_no_answers [OF _ _ assms] by blast
next
  assume "api_provider props \<noteq> CUSTOM \<and> strip (api_key props) \<noteq> [] \<and>
        (\<exists>answer rest.
           map_of kvs (top_key (api_provider props)) = Some (JArr (JObj answer # rest)) \<and>
           map_of answer (nested_key (api_provider props)) = None)"
  then show "call_api env props w =
        (Inr JNull,
         report ERROR (''Invalid response structure from '' @ provider_label (api_provider props))
           (sent (request_for props) w))"
    using call_api_no_nested_key [OF _ _ assms] by blast
next
  assume "api_provider props \<noteq> CUSTOM \<and> strip (api_key props) \<noteq> [] \<and>
        (\<exists>answer rest inner k.
           map_of kvs (top_key (api_provider props)) = Some (JArr (JObj answer # rest)) \<and>
           map_of answer (nested_key (api_provider props)) = Some (JObj inner) \<and>
           inner_key (api_provider props) = Some k \<and> map_of inner k = None)"
  then show "call_api env props w =
        (Inr JNull,
         report ERROR (''Invalid response structure from '' @ provider_label (api_provider props))
           (sent (request_for props) w))"
    using call_api_no_inner_key [OF _ _ assms] by blast
next
  assume "api_provider props = GEMINI \<and> strip (api_key props) \<noteq> [] \<and>
        (\<exists>answer rest inner part parts.
           map_of kvs ''candidates'' = Some (JArr (JObj answer # rest)) \<and>
           map_of answer ''content'' = Some (JObj inner) \<and>
           map_of inner ''parts'' = Some (JArr (JObj part # parts)) \<and>
           map_of part ''text'' = None)"
  then show "call_api env props w =
        (Inr JNull,
         report ERROR (''API Error: '' @ quoted ''text'') (sent (request_for props) w))"
    using call_api_gemini_no_text [OF _ _ assms] by blast
next
  assume c: "api_provider props = CUSTOM \<and> map_of kvs ''script'' = None \<and> strip (prompt props) \<noteq> []"
  then have r: "request_for props = custom_request props"
    by (simp add: request_for_def)
  from c call_api_custom [OF _ assms [unfolded r]]
  show "call_api env props w = (Inr (JStr []), sent (request_for props) w)"
    by (simp add: r)
  from c execute_custom_no_script [OF _ assms [unfolded r]]
  show "execute env props w =
        (Inr CANCELLED,
         report ERROR ''Failed to get valid script from API''
           (sent (request_for props)
              (report INFO (''Generating model for: '' @ prompt props) w)))"
    by (simp add: r)
qed

text \<open>C6, amended, at one reply for each of its five cases.\<close>

theorem shape_error_reported_witness:
  "call_api (example_env (Inr (ok_response (JObj [(''id'', JStr ''msg_1'')]))) (Inr ()))
      (example_props ANTHROPIC ''key'') example_world =
     (Inr JNull,
      \<lparr>reports = [(ERROR, ''No content generated by Anthropic'')],
       http_log = [anthropic_request (example_props ANTHROPIC ''key'')],
       scene = [''Camera'']\<rparr>) \<and>
   call_api (example_env (Inr (ok_response
        (JObj [(''candidates'', JArr [JObj [(''finishReason'', JStr ''SAFETY'')]])]))) (Inr ()))
      (example_props GEMINI ''key'') example_world =
     (Inr JNull,
      \<lparr>reports = [(ERROR, ''Invalid response structure from Gemini'')],
       http_log = [gemini_request (example_props GEMINI ''key'')],
       scene = [''Camera'']\<rparr>) \<and>
   execute (example_env (Inr (ok_response (JObj [(''result'', JStr ''import bpy'')]))) (Inr ()))
      (example_props CUSTOM []) example_world =
     (Inr CANCELLED,
      \<lparr>reports = [(INFO, ''Generating model for: Create a simple cube''),
                  (ERROR, ''Failed to get valid script from API'')],
       http_log = [custom_request (example_props CUSTOM [])],
       scene = [''Camera'']\<rparr>) \<and>
   call_api (example_env (Inr (ok_response
        (JObj [(''choices'', JArr [JObj [(''message'', JObj [(''role'', JStr ''assistant'')])]])])))
        (Inr ()))
      (example_props OPENAI ''key'') example_world =
     (Inr JNull,
      \<lparr>reports = [(ERROR, ''Invalid response structure from OpenAI'')],
       http_log = [openai_request (example_props OPENAI ''key'')],
       scene = [''Camera'']\<rparr>) \<and>
   call_api (example_env (Inr (ok_response
        (JObj [(''candidates'', JArr [JObj [(''content'',
           JObj [(''parts'', JArr [JObj [(''inlineData'', JStr ''...'')]])])]])]))) (Inr ()))
      (example_props GEMINI ''key'') example_world =
     (Inr JNull,
      \<lparr>reports = [(ERROR, ''API Error: '' @ quoted ''text'')],
       http_log = [gemini_request (example_props GEMINI ''key'')],
       scene = [''Camera'']\<rparr>)"
proof -
  have key: "strip (api_key (example_props p ''key'')) \<noteq> []" for p
    by (simp add: example_props_def strip_def isspace_def)
  have ok: "post (example_env (Inr (ok_response (JObj kvs))) (Inr ()) :: (string list, string) env)
       req = Inr (ok_response (JObj kvs))"
      "status_code (ok_response (JObj kvs)) = 200"
      "body_json (ok_response (JObj kvs)) = Inr (JObj kvs)" for kvs req
    by (simp_all add: example_env_def ok_response_def)
  have a: "call_api (example_env (Inr (ok_response (JObj [(''id'', JStr ''msg_1'')]))) (Inr ()))
      (example_props ANTHROPIC ''key'') example_world =
     (Inr JNull,
      \<lparr>reports = [(ERROR, ''No content generated by Anthropic'')],
       http_log = [anthropic_request (example_props ANTHROPIC ''key'')],
       scene = [''Camera'']\<rparr>)"
    using shape_error_reported [of "example_env (Inr (ok_response (JObj [(''id'', JStr ''msg_1'')]))) (Inr ())"
        "example_props ANTHROPIC ''key''" "ok_response (JObj [(''id'', JStr ''msg_1'')])" "[(''id'', JStr ''msg_1'')]" example_world] key [of ANTHROPIC]
    by (simp add: ok example_props_def request_for_def report_def sent_def example_world_def)
  have b: "call_api (example_env (Inr (ok_response
        (JObj [(''candidates'', JArr [JObj [(''finishReason'', JStr ''SAFETY'')]])]))) (Inr ()))
      (example_props GEMINI ''key'') example_world =
     (Inr JNull,
      \<lparr>reports = [(ERROR, ''Invalid response structure from Gemini'')],
       http_log = [gemini_request (example_props GEMINI ''key'')],
       scene = [''Camera'']\<rparr>)"
    using shape_error_reported [of "example_env (Inr (ok_response (JObj [(''candidates'', JArr [JObj [(''finishReason'', JStr ''SAFETY'')]])]))) (Inr ())"
        "example_props GEMINI ''key''" "ok_response (JObj [(''candidates'', JArr [JObj [(''finishReason'', JStr ''SAFETY'')]])])" "[(''candidates'', JArr [JObj [(''finishReason'', JStr ''SAFETY'')]])]" example_world] key [of GEMINI]
    by (simp add: ok example_props_def request_for_def report_def sent_def example_world_def)
  have c: "execute (example_env (Inr (ok_response (JObj [(''result'', JStr ''import bpy'')]))) (Inr ()))
      (example_props CUSTOM []) example_world =
     (Inr CANCELLED,
      \<lparr>reports = [(INFO, ''Generating model for: Create a simple cube''),
                  (ERROR, ''Failed to get valid script from API'')],
       http_log = [custom_request (example_props CUSTOM [])],
       scene = [''Camera'']\<rparr>)"
    using shape_error_reported [of "example_env (Inr (ok_response (JObj [(''result'', JStr ''import bpy'')]))) (Inr ())"
        "example_props CUSTOM []" "ok_response (JObj [(''result'', JStr ''import bpy'')])" "[(''result'', JStr ''import bpy'')]" example_world]
    by (simp add: ok example_props_def request_for_def report_def sent_def example_world_def
        strip_def isspace_def)
  have d: "call_api (example_env (Inr (ok_response
        (JObj [(''choices'', JArr [JObj [(''message'', JObj [(''role'', JStr ''assistant'')])]])])))
        (Inr ()))
      (example_props OPENAI ''key'') example_world =
     (Inr JNull,
      \<lparr>reports = [(ERROR, ''Invalid response structure from OpenAI'')],
       http_log = [openai_request (example_props OPENAI ''key'')],
       scene = [''Camera'']\<rparr>)"
    using shape_error_reported [of "example_env (Inr (ok_response (JObj [(''choices'', JArr [JObj [(''message'', JObj [(''role'', JStr ''assistant'')])]])]))) (Inr ())"
        "example_props OPENAI ''key''" "ok_response (JObj [(''choices'', JArr [JObj [(''message'', JObj [(''role'', JStr ''assistant'')])]])])" "[(''choices'', JArr [JObj [(''message'', JObj [(''role'', JStr ''assistant'')])]])]" example_world] key [of OPENAI]
    by (simp add: ok example_props_def request_for_def report_def sent_def example_world_def)
  have e: "call_api (example_env (Inr (ok_response
        (JObj [(''candidates'', JArr [JObj [(''content'',
           JObj [(''parts'', JArr [JObj [(''inlineData'', JStr ''...'')]])])]])]))) (Inr ()))
      (example_props GEMINI ''key'') example_world =
     (Inr JNull,
      \<lparr>reports = [(ERROR, ''API Error: '' @ quoted ''text'')],
       http_log = [gemini_request (example_props GEMINI ''key'')],
       scene = [''Camera'']\<rparr>)"
    using shape_error_reported [of "example_env (Inr (ok_response (JObj [(''candidates'', JArr [JObj [(''content'', JObj [(''parts'', JArr [JObj [(''inlineData'', JStr ''...'')]])])]])]))) (Inr ())"
        "example_props GEMINI ''key''" "ok_response (JObj [(''candidates'', JArr [JObj [(''content'', JObj [(''parts'', JArr [JObj [(''inlineData'', JStr ''...'')]])])]])])" "[(''candidates'', JArr [JObj [(''content'', JObj [(''parts'', JArr [JObj [(''inlineData'', JStr ''...'')]])])]])]" example_world] key [of GEMINI]
    by (simp add: ok example_props_def request_for_def report_def sent_def example_world_def)
  from a b c d e show ?thesis by blast
qed

end
